theory Spec2Isabelle
  imports Complex_Main
begin

section \<open>Python values and arithmetic\<close>

text \<open>
  The projection engine of the repository (\<^verbatim>\<open>src/calculations/financial.py\<close> and
  \<^verbatim>\<open>src/calculations/sales.py\<close>) computes with Python floats and ints. Floats are
  modelled by the reals (exact arithmetic, no overflow, no NaN), Python ints by \<open>int\<close>
  and list indexes by \<open>nat\<close>. Every exception the code can raise on well-typed input is a
  value of \<open>error\<close>.
\<close>

datatype error = ZeroDivisionError | KeyError | IndexError | TypeError

text \<open>\<^verbatim>\<open>a / b\<close> on floats raises ZeroDivisionError when \<open>b\<close> is zero.\<close>

definition py_truediv :: "real \<Rightarrow> real \<Rightarrow> error + real" where
  "py_truediv a b = (if b = 0 then Inl ZeroDivisionError else Inr (a / b))"

text \<open>
  \<^verbatim>\<open>x ** n\<close> for a float \<open>x\<close> and an int \<open>n\<close>: a negative exponent of zero raises
  ZeroDivisionError, and \<^verbatim>\<open>0.0 ** 0\<close> is 1.
\<close>

definition py_pow :: "real \<Rightarrow> int \<Rightarrow> error + real" where
  "py_pow x n =
     (if 0 \<le> n then Inr (x ^ nat n)
      else if x = 0 then Inl ZeroDivisionError
      else Inr (1 / x ^ nat (- n)))"

text \<open>
  \<^verbatim>\<open>round(x, 2)\<close>: the nearest multiple of 1/100, a tie going to the even multiple.
\<close>

definition py_round2 :: "real \<Rightarrow> real" where
  "py_round2 x =
     (let y = x * 100; f = \<lfloor>y\<rfloor>; d = y - of_int f
      in of_int (if d < 1 / 2 then f
                 else if 1 / 2 < d then f + 1
                 else if even f then f else f + 1) / 100)"

section \<open>financial.py: FinancialCalculator\<close>

subsection \<open>calculate\_npv\<close>

fun npv_loop :: "real \<Rightarrow> nat \<Rightarrow> real list \<Rightarrow> real \<Rightarrow> error + real" where
  "npv_loop discount_rate t [] npv = Inr npv"
| "npv_loop discount_rate t (cf # rest) npv =
     (case py_truediv cf ((1 + discount_rate) ^ t) of
        Inl e \<Rightarrow> Inl e
      | Inr q \<Rightarrow> npv_loop discount_rate (Suc t) rest (npv + q))"

definition calculate_npv :: "real list \<Rightarrow> real \<Rightarrow> error + real" where
  "calculate_npv cash_flows discount_rate =
     (case npv_loop discount_rate 0 cash_flows 0 of
        Inl e \<Rightarrow> Inl e
      | Inr npv \<Rightarrow> Inr (py_round2 npv))"

subsection \<open>calculate\_irr\<close>

text \<open>
  \<^verbatim>\<open>np.irr\<close> is a library function; it is a parameter \<open>np_irr\<close> of the model, which
  answers \<open>None\<close> where the call raises or gives NaN or an infinity (the code maps all
  three to \<^verbatim>\<open>None\<close>). A NumPy that has no \<^verbatim>\<open>np.irr\<close>, where the call raises
  AttributeError, is the solver \<open>Map.empty\<close>.
\<close>

definition calculate_irr :: "(real list \<Rightarrow> real option) \<Rightarrow> real list \<Rightarrow> real option" where
  "calculate_irr np_irr cash_flows =
     (let has_negative = list_ex (\<lambda>cf. cf < 0) cash_flows;
          has_positive = list_ex (\<lambda>cf. cf > 0) cash_flows
      in if \<not> (has_negative \<and> has_positive) then None
         else (case np_irr cash_flows of
                 None \<Rightarrow> None
               | Some irr \<Rightarrow> Some (py_round2 (irr * 100))))"

subsection \<open>calculate\_payback\_period\<close>

fun payback_loop :: "nat \<Rightarrow> real list \<Rightarrow> real \<Rightarrow> real option" where
  "payback_loop i [] cumulative = None"
| "payback_loop i (cf # rest) cumulative =
     (let cumulative' = cumulative + cf
      in if cumulative' \<ge> 0
         then (if i > 0 \<and> cf \<noteq> 0
               then Some (py_round2 (real i - 1 + (0 - (cumulative' - cf)) / cf))
               else Some (real i))
         else payback_loop (Suc i) rest cumulative')"

definition calculate_payback_period :: "real list \<Rightarrow> real option" where
  "calculate_payback_period cash_flows = payback_loop 0 cash_flows 0"

subsection \<open>calculate\_metrics\<close>

record metrics =
  m_npv :: real
  m_irr :: real
  m_payback :: real
  m_discounted_cash_flows :: "real list"
  m_cumulative_cash_flows :: "real list"
  m_mirr :: real

fun discount_flows :: "real \<Rightarrow> nat \<Rightarrow> real list \<Rightarrow> error + real list" where
  "discount_flows discount_rate t [] = Inr []"
| "discount_flows discount_rate t (cf # rest) =
     (case py_truediv cf ((1 + discount_rate) ^ t) of
        Inl e \<Rightarrow> Inl e
      | Inr q \<Rightarrow> (case discount_flows discount_rate (Suc t) rest of
                   Inl e \<Rightarrow> Inl e
                 | Inr qs \<Rightarrow> Inr (q # qs)))"

fun cumulative_loop :: "real \<Rightarrow> real list \<Rightarrow> real list" where
  "cumulative_loop cumulative [] = []"
| "cumulative_loop cumulative (cf # rest) =
     (cumulative + cf) # cumulative_loop (cumulative + cf) rest"

text \<open>The two loops of the MIRR block; \<open>n\<close> is \<^verbatim>\<open>len(cash_flows)\<close>.\<close>

fun terminal_value_loop :: "real \<Rightarrow> nat \<Rightarrow> nat \<Rightarrow> real list \<Rightarrow> real \<Rightarrow> real" where
  "terminal_value_loop reinvestment_rate n t [] terminal_value = terminal_value"
| "terminal_value_loop reinvestment_rate n t (cf # rest) terminal_value =
     terminal_value_loop reinvestment_rate n (Suc t) rest
       (if cf > 0 then terminal_value + cf * (1 + reinvestment_rate) ^ (n - 1 - t)
        else terminal_value)"

fun pv_negative_loop :: "real \<Rightarrow> nat \<Rightarrow> real list \<Rightarrow> real \<Rightarrow> error + real" where
  "pv_negative_loop discount_rate t [] pv_negative = Inr pv_negative"
| "pv_negative_loop discount_rate t (cf # rest) pv_negative =
     (if cf < 0
      then (case py_truediv \<bar>cf\<bar> ((1 + discount_rate) ^ t) of
              Inl e \<Rightarrow> Inl e
            | Inr q \<Rightarrow> pv_negative_loop discount_rate (Suc t) rest (pv_negative + q))
      else pv_negative_loop discount_rate (Suc t) rest pv_negative)"

text \<open>The body of the \<^verbatim>\<open>try\<close> block that computes MIRR.\<close>

definition mirr_try :: "real list \<Rightarrow> real \<Rightarrow> real \<Rightarrow> error + real" where
  "mirr_try cash_flows discount_rate reinvestment_rate =
     (let positive_flows = map (max 0) cash_flows;
          negative_flows = map (min 0) cash_flows
      in if sum_list positive_flows = 0 \<or> sum_list negative_flows = 0 then Inr 0
         else
           (let terminal_value =
                  terminal_value_loop reinvestment_rate (length cash_flows) 0 positive_flows 0
            in case pv_negative_loop discount_rate 0 negative_flows 0 of
                 Inl e \<Rightarrow> Inl e
               | Inr pv_negative \<Rightarrow>
                   if terminal_value > 0 \<and> pv_negative > 0
                   then (if int (length cash_flows) - 1 = 0 then Inl ZeroDivisionError
                         else Inr ((terminal_value / pv_negative)
                                     powr (1 / real_of_int (int (length cash_flows) - 1)) - 1))
                   else Inr 0))"

definition calculate_metrics ::
  "(real list \<Rightarrow> real option) \<Rightarrow> real list \<Rightarrow> real \<Rightarrow> real option \<Rightarrow> error + metrics" where
  "calculate_metrics np_irr cash_flows discount_rate reinvestment_rate_arg =
     (case calculate_npv cash_flows discount_rate of
        Inl e \<Rightarrow> Inl e
      | Inr npv \<Rightarrow>
          (let irr_result = calculate_irr np_irr cash_flows;
               irr = (case irr_result of Some v \<Rightarrow> v / 100 | None \<Rightarrow> 0);
               payback = (case calculate_payback_period cash_flows of
                            None \<Rightarrow> real (length cash_flows)
                          | Some p \<Rightarrow> p)
           in case discount_flows discount_rate 0 cash_flows of
                Inl e \<Rightarrow> Inl e
              | Inr discounted_cash_flows \<Rightarrow>
                  (let cumulative_cash_flows = cumulative_loop 0 cash_flows;
                       reinvestment_rate = (case reinvestment_rate_arg of
                                              None \<Rightarrow> discount_rate
                                            | Some rr \<Rightarrow> rr);
                       mirr = (case mirr_try cash_flows discount_rate reinvestment_rate of
                                 Inl e \<Rightarrow> 0
                               | Inr v \<Rightarrow> v)
                   in Inr \<lparr> m_npv = npv, m_irr = irr, m_payback = payback,
                            m_discounted_cash_flows = discounted_cash_flows,
                            m_cumulative_cash_flows = cumulative_cash_flows,
                            m_mirr = mirr \<rparr>)))"

section \<open>Reference formulas\<close>

text \<open>
  The closed formulas the specification gives for the modified internal rate of return,
  written from its words, to compare the loops of \<^verbatim>\<open>calculate_metrics\<close> with: the
  terminal value of the non-negative entries compounded forward to the final year, the
  present value of the magnitudes of the non-positive entries, and their ratio raised to
  \<open>1 / horizon\<close>, minus 1 (\<open>horizon\<close> is the number of entries minus one).
\<close>

definition spec_terminal_value :: "real \<Rightarrow> real list \<Rightarrow> real" where
  "spec_terminal_value reinvestment_rate cash_flows =
     sum_list (map (\<lambda>(t, cf). max 0 cf * (1 + reinvestment_rate) ^ (length cash_flows - 1 - t))
                   (enumerate 0 cash_flows))"

definition spec_pv_negative :: "real \<Rightarrow> real list \<Rightarrow> real" where
  "spec_pv_negative discount_rate cash_flows =
     sum_list (map (\<lambda>(t, cf). \<bar>min 0 cf\<bar> / (1 + discount_rate) ^ t) (enumerate 0 cash_flows))"

definition spec_mirr :: "real list \<Rightarrow> real \<Rightarrow> real \<Rightarrow> real" where
  "spec_mirr cash_flows discount_rate reinvestment_rate =
     (spec_terminal_value reinvestment_rate cash_flows / spec_pv_negative discount_rate cash_flows)
       powr (1 / real (length cash_flows - 1)) - 1"

section \<open>Schedules\<close>

text \<open>
  A dict keyed by years that the code receives is an association list (the first binding
  of a key is its value); the result dicts the code builds year by year are maps.
\<close>

type_synonym rates = "(int \<times> real) list"

text \<open>
  The value stored for a product in \<^verbatim>\<open>default_growth_rates\<close> or \<^verbatim>\<open>default_margins\<close>:
  a dict, a value that is not a dict and that \<^verbatim>\<open>float()\<close> converts (\<open>Scalar\<close>), or a value
  that is not a dict and on which \<^verbatim>\<open>float()\<close> raises TypeError or ValueError.
\<close>

datatype schedule = Dict rates | Scalar real | NonNumeric

section \<open>sales.py: SalesCalculator\<close>

subsection \<open>Dicts and loops over years\<close>

text \<open>\<^verbatim>\<open>d.get(k, default)\<close> on a result dict, and \<^verbatim>\<open>d[k]\<close> on a dict of rates.\<close>

definition dict_get :: "('k \<rightharpoonup> 'v) \<Rightarrow> 'k \<Rightarrow> 'v \<Rightarrow> 'v" where
  "dict_get d k default_value = (case d k of None \<Rightarrow> default_value | Some v \<Rightarrow> v)"

definition rates_getitem :: "rates \<Rightarrow> int \<Rightarrow> error + real" where
  "rates_getitem d k = (case map_of d k of None \<Rightarrow> Inl KeyError | Some v \<Rightarrow> Inr v)"

text \<open>\<^verbatim>\<open>max(xs, default=None)\<close> and \<^verbatim>\<open>min(xs, default=None)\<close>.\<close>

fun py_max_default :: "int list \<Rightarrow> int option" where
  "py_max_default [] = None"
| "py_max_default (x # xs) = Some (fold max xs x)"

fun py_min_default :: "int list \<Rightarrow> int option" where
  "py_min_default [] = None"
| "py_min_default (x # xs) = Some (fold min xs x)"

text \<open>
  \<^verbatim>\<open>for year in ...: d[year] = body(year)\<close>: the loop that fills a result dict, stopping
  at the first exception of the body.
\<close>

fun for_years :: "(int \<Rightarrow> error + real) \<Rightarrow> int list \<Rightarrow> (int \<rightharpoonup> real) \<Rightarrow> error + (int \<rightharpoonup> real)" where
  "for_years body [] d = Inr d"
| "for_years body (year # rest) d =
     (case body year of
        Inl e \<Rightarrow> Inl e
      | Inr v \<Rightarrow> for_years body rest (d(year \<mapsto> v)))"

subsection \<open>Filling in missing years (lines 523-566 and 595-638)\<close>

text \<open>
  \<^verbatim>\<open>calculate_product_sales\<close> and \<^verbatim>\<open>calculate_product_revenue\<close> hold the same block of
  code, once for growth rates with the default 0.05 and once for margins with the default
  5.0; it is one function here, with the default as a parameter.
\<close>

definition as_rates :: "real \<Rightarrow> schedule \<Rightarrow> int \<Rightarrow> rates" where
  "as_rates default_rate rates_arg years =
     (case rates_arg of
        Dict d \<Rightarrow> d
      | Scalar fixed_rate \<Rightarrow> map (\<lambda>year. (year, fixed_rate)) [1..years]
      | NonNumeric \<Rightarrow> map (\<lambda>year. (year, default_rate)) [1..years])"

definition interpolate_year :: "rates \<Rightarrow> int list \<Rightarrow> int \<Rightarrow> error + real" where
  "interpolate_year growth_rates defined_years year =
     (if year \<in> set (map fst growth_rates) then rates_getitem growth_rates year
      else
        (let lower_year = py_max_default (filter (\<lambda>y. y < year) defined_years);
             upper_year = py_min_default (filter (\<lambda>y. y > year) defined_years)
         in case lower_year of
              None \<Rightarrow>
                (case defined_years of
                   [] \<Rightarrow> Inl IndexError
                 | first_year # _ \<Rightarrow> rates_getitem growth_rates first_year)
            | Some lower \<Rightarrow>
                (case upper_year of
                   None \<Rightarrow>
                     (if defined_years = [] then Inl IndexError
                      else rates_getitem growth_rates (last defined_years))
                 | Some upper \<Rightarrow>
                     (case rates_getitem growth_rates lower of
                        Inl e \<Rightarrow> Inl e
                      | Inr lower_rate \<Rightarrow>
                          (case rates_getitem growth_rates upper of
                             Inl e \<Rightarrow> Inl e
                           | Inr upper_rate \<Rightarrow>
                               (case py_truediv (of_int (year - lower)) (of_int (upper - lower)) of
                                  Inl e \<Rightarrow> Inl e
                                | Inr ratio \<Rightarrow>
                                    Inr (lower_rate + (upper_rate - lower_rate) * ratio)))))))"

definition interpolate_rates :: "real \<Rightarrow> schedule \<Rightarrow> int \<Rightarrow> error + (int \<rightharpoonup> real)" where
  "interpolate_rates default_rate rates_arg years =
     (let growth_rates = as_rates default_rate rates_arg years;
          defined_years = sort (filter (\<lambda>year. year \<le> years) (map fst growth_rates))
      in if defined_years = []
         then for_years (interpolate_year [(1, default_rate)] [1]) [1..years] Map.empty
         else for_years (interpolate_year growth_rates defined_years) [1..years] Map.empty)"

subsection \<open>calculate\_product\_sales\<close>

fun sales_loop :: "(int \<rightharpoonup> real) \<Rightarrow> int list \<Rightarrow> (int \<rightharpoonup> real) \<Rightarrow> error + (int \<rightharpoonup> real)" where
  "sales_loop all_growth_rates [] yearly_sales = Inr yearly_sales"
| "sales_loop all_growth_rates (year # rest) yearly_sales =
     (case yearly_sales (year - 1) of
        None \<Rightarrow> Inl KeyError
      | Some previous_sales \<Rightarrow>
          (case all_growth_rates year of
             None \<Rightarrow> Inl KeyError
           | Some growth_rate \<Rightarrow>
               sales_loop all_growth_rates rest
                 (yearly_sales(year \<mapsto> previous_sales * (1 + growth_rate)))))"

definition calculate_product_sales :: "real \<Rightarrow> schedule \<Rightarrow> int \<Rightarrow> error + (int \<rightharpoonup> real)" where
  "calculate_product_sales base_sales growth_rates years =
     (let annual_base = base_sales * 365
      in case interpolate_rates (5 / 100) growth_rates years of
           Inl e \<Rightarrow> Inl e
         | Inr all_growth_rates \<Rightarrow>
             sales_loop all_growth_rates [1..years] (Map.empty(0 \<mapsto> annual_base)))"

subsection \<open>calculate\_product\_revenue\<close>

definition revenue_year :: "(int \<rightharpoonup> real) \<Rightarrow> (int \<rightharpoonup> real) \<Rightarrow> real \<Rightarrow> int \<Rightarrow> error + real" where
  "revenue_year sales_volumes all_margins inflation_rate year =
     (case (if year = 0 then Inr (dict_get all_margins 1 5)
            else
              (let base_margin = dict_get all_margins year (dict_get all_margins 1 5)
               in case py_pow (1 + inflation_rate) (year - 1) of
                    Inl e \<Rightarrow> Inl e
                  | Inr factor \<Rightarrow> Inr (base_margin * factor))) of
        Inl e \<Rightarrow> Inl e
      | Inr margin \<Rightarrow> Inr (dict_get sales_volumes year 0 * margin))"

definition calculate_product_revenue ::
  "(int \<rightharpoonup> real) \<Rightarrow> schedule \<Rightarrow> int \<Rightarrow> real \<Rightarrow> error + (int \<rightharpoonup> real)" where
  "calculate_product_revenue sales_volumes margins years inflation_rate =
     (case interpolate_rates 5 margins years of
        Inl e \<Rightarrow> Inl e
      | Inr all_margins \<Rightarrow>
          for_years (revenue_year sales_volumes all_margins inflation_rate) [0..years] Map.empty)"

section \<open>models: DealerOutlet and Scenario\<close>

text \<open>The fields of the two dataclasses that \<^verbatim>\<open>run_scenario\<close> reads.\<close>

text \<open>\<^verbatim>\<open>analysis_years\<close>: an int, or a value that is not an instance of int.\<close>

datatype years_value = IntYears int | NotAnInt

text \<open>A rental stream is a dict read with \<^verbatim>\<open>.get\<close>: each key may be absent.\<close>

record rental_stream =
  start_year :: "int option"
  end_year :: "int option"
  monthly_rent :: "real option"

record dealer =
  pmg_sales :: real
  hsd_sales :: real
  hobc_sales :: real
  lube_sales :: real
  initial_investment :: real
  operating_costs :: real
  rental_streams :: "rental_stream list"

record scenario =
  discount_rate :: real
  inflation_rate :: real
  analysis_years :: years_value
  default_growth_rates :: "string \<rightharpoonup> schedule"
  default_margins :: "string \<rightharpoonup> schedule"
  tax_rate :: real
  signage_maintenance :: real
  signage_maintenance_year :: int
  other_maintenance :: real
  other_maintenance_year :: int
  insurance_rates :: "string \<rightharpoonup> real"

section \<open>sales.py: SalesCalculator.run\_scenario\<close>

subsection \<open>Input normalisation (lines 344-367)\<close>

text \<open>
  The block assigns to attributes of the scenario it was passed and to the dicts they
  hold: the model returns the scenario updated.
\<close>

definition ensure_analysis_years :: "scenario \<Rightarrow> scenario" where
  "ensure_analysis_years s =
     (case analysis_years s of
        IntYears n \<Rightarrow> s
      | NotAnInt \<Rightarrow> s\<lparr>analysis_years := IntYears 15\<rparr>)"

definition ensure_growth_rate :: "string \<Rightarrow> scenario \<Rightarrow> scenario" where
  "ensure_growth_rate product s =
     (case default_growth_rates s product of
        None \<Rightarrow> s\<lparr>default_growth_rates := (default_growth_rates s)(product \<mapsto> Dict [(1, 5 / 100)])\<rparr>
      | Some (Dict d) \<Rightarrow> s
      | Some (Scalar v) \<Rightarrow>
          s\<lparr>default_growth_rates := (default_growth_rates s)(product \<mapsto> Dict [(1, v)])\<rparr>
      | Some NonNumeric \<Rightarrow>
          s\<lparr>default_growth_rates := (default_growth_rates s)(product \<mapsto> Dict [(1, 5 / 100)])\<rparr>)"

definition default_values :: "string \<rightharpoonup> real" where
  "default_values = [''pmg'' \<mapsto> 5, ''hsd'' \<mapsto> 4, ''hobc'' \<mapsto> 6, ''lube'' \<mapsto> 100]"

definition ensure_margin :: "string \<Rightarrow> scenario \<Rightarrow> scenario" where
  "ensure_margin product s =
     (case default_margins s product of
        None \<Rightarrow>
          s\<lparr>default_margins :=
              (default_margins s)(product \<mapsto> Dict [(1, dict_get default_values product 5)])\<rparr>
      | Some (Dict d) \<Rightarrow> s
      | Some (Scalar v) \<Rightarrow> s\<lparr>default_margins := (default_margins s)(product \<mapsto> Dict [(1, v)])\<rparr>
      | Some NonNumeric \<Rightarrow>
          s\<lparr>default_margins :=
              (default_margins s)(product \<mapsto> Dict [(1, dict_get default_values product 5)])\<rparr>)"

definition normalize_scenario :: "scenario \<Rightarrow> scenario" where
  "normalize_scenario s =
     fold (\<lambda>product s'. ensure_margin product (ensure_growth_rate product s'))
          [''pmg'', ''hsd'', ''hobc'', ''lube''] (ensure_analysis_years s)"

subsection \<open>Yearly series (lines 383-442)\<close>

definition total_revenue_year ::
  "(int \<rightharpoonup> real) \<Rightarrow> (int \<rightharpoonup> real) \<Rightarrow> (int \<rightharpoonup> real) \<Rightarrow> (int \<rightharpoonup> real) \<Rightarrow> int \<Rightarrow> error + real" where
  "total_revenue_year pmg_revenue hsd_revenue hobc_revenue lube_revenue year =
     Inr (dict_get pmg_revenue year 0 + dict_get hsd_revenue year 0 +
          dict_get hobc_revenue year 0 + dict_get lube_revenue year 0)"

definition operating_costs_year :: "scenario \<Rightarrow> real \<Rightarrow> int \<Rightarrow> error + real" where
  "operating_costs_year s monthly_costs year =
     (if year = 0 then Inr 0
      else (case py_pow (1 + inflation_rate s) (year - 1) of
              Inl e \<Rightarrow> Inl e
            | Inr inflation_factor \<Rightarrow> Inr (monthly_costs * 12 * inflation_factor)))"

text \<open>
  \<^verbatim>\<open>year % scenario.signage_maintenance_year\<close> is evaluated only when \<^verbatim>\<open>year > 0\<close>, and
  raises ZeroDivisionError when the divisor is zero; the remainder of Python ints has the
  sign of the divisor, as \<open>mod\<close> on \<open>int\<close> has.
\<close>

definition maintenance_year :: "scenario \<Rightarrow> int \<Rightarrow> int \<Rightarrow> error + real" where
  "maintenance_year s years year =
     (case (if year > 0
            then (if signage_maintenance_year s = 0 then Inl ZeroDivisionError
                  else if year mod signage_maintenance_year s = 0 \<and> year \<le> years
                       then (case py_pow (1 + inflation_rate s) (year - 1) of
                               Inl e \<Rightarrow> Inl e
                             | Inr inflation_factor \<Rightarrow>
                                 Inr (0 + signage_maintenance s * inflation_factor))
                       else Inr 0)
            else Inr 0) of
        Inl e \<Rightarrow> Inl e
      | Inr maintenance \<Rightarrow>
          if year = other_maintenance_year s
          then (case py_pow (1 + inflation_rate s) (year - 1) of
                  Inl e \<Rightarrow> Inl e
                | Inr inflation_factor \<Rightarrow>
                    Inr (maintenance + other_maintenance s * inflation_factor))
          else Inr maintenance)"

definition insurance_year :: "scenario \<Rightarrow> dealer \<Rightarrow> real \<Rightarrow> int \<Rightarrow> error + real" where
  "insurance_year s d insurance_rate year =
     (if year = 0 then Inr 0
      else (case py_pow (1 + inflation_rate s) (year - 1) of
              Inl e \<Rightarrow> Inl e
            | Inr inflation_factor \<Rightarrow>
                Inr (initial_investment d * insurance_rate * inflation_factor)))"

fun rental_streams_loop :: "scenario \<Rightarrow> int \<Rightarrow> int \<Rightarrow> rental_stream list \<Rightarrow> real \<Rightarrow> error + real" where
  "rental_streams_loop s years year [] income = Inr income"
| "rental_streams_loop s years year (stream # rest) income =
     (let first_year = (case start_year stream of None \<Rightarrow> 1 | Some y \<Rightarrow> y);
          last_year = (case end_year stream of None \<Rightarrow> years | Some y \<Rightarrow> y);
          rent = (case monthly_rent stream of None \<Rightarrow> 0 | Some m \<Rightarrow> m)
      in if first_year \<le> year \<and> year \<le> last_year
         then (case py_pow (1 + inflation_rate s) (year - 1) of
                 Inl e \<Rightarrow> Inl e
               | Inr inflation_factor \<Rightarrow>
                   rental_streams_loop s years year rest (income + rent * 12 * inflation_factor))
         else rental_streams_loop s years year rest income)"

definition rental_income_year :: "scenario \<Rightarrow> dealer \<Rightarrow> int \<Rightarrow> int \<Rightarrow> error + real" where
  "rental_income_year s d years year = rental_streams_loop s years year (rental_streams d) 0"

subsection \<open>Net cash flows (lines 444-463)\<close>

definition cash_flow_year ::
  "(int \<rightharpoonup> real) \<Rightarrow> (int \<rightharpoonup> real) \<Rightarrow> (int \<rightharpoonup> real) \<Rightarrow> (int \<rightharpoonup> real) \<Rightarrow> (int \<rightharpoonup> real) \<Rightarrow>
   real \<Rightarrow> int \<Rightarrow> real" where
  "cash_flow_year total_revenue costs maintenance insurance rental_income rate year =
     (let cf = dict_get total_revenue year 0 - dict_get costs year 0 -
               dict_get maintenance year 0 - dict_get insurance year 0 +
               dict_get rental_income year 0;
          taxable_income = max 0 cf;
          tax = taxable_income * rate
      in cf - tax)"

definition net_cash_flows ::
  "dealer \<Rightarrow> (int \<rightharpoonup> real) \<Rightarrow> (int \<rightharpoonup> real) \<Rightarrow> (int \<rightharpoonup> real) \<Rightarrow> (int \<rightharpoonup> real) \<Rightarrow>
   (int \<rightharpoonup> real) \<Rightarrow> real \<Rightarrow> int \<Rightarrow> real list" where
  "net_cash_flows d total_revenue costs maintenance insurance rental_income rate years =
     (- initial_investment d) #
     map (cash_flow_year total_revenue costs maintenance insurance rental_income rate) [1..years]"

subsection \<open>The result\<close>

record yearly_data =
  y_pmg_sales :: "int \<rightharpoonup> real"
  y_hsd_sales :: "int \<rightharpoonup> real"
  y_hobc_sales :: "int \<rightharpoonup> real"
  y_lube_sales :: "int \<rightharpoonup> real"
  y_pmg_revenue :: "int \<rightharpoonup> real"
  y_hsd_revenue :: "int \<rightharpoonup> real"
  y_hobc_revenue :: "int \<rightharpoonup> real"
  y_lube_revenue :: "int \<rightharpoonup> real"
  y_total_revenue :: "int \<rightharpoonup> real"
  y_operating_costs :: "int \<rightharpoonup> real"
  y_maintenance :: "int \<rightharpoonup> real"
  y_insurance :: "int \<rightharpoonup> real"
  y_rental_income :: "int \<rightharpoonup> real"

record results =
  r_npv :: real
  r_irr :: real
  r_payback_period :: real
  r_mirr :: real
  r_cash_flows :: "real list"
  r_discounted_cash_flows :: "real list"
  r_cumulative_cash_flows :: "real list"
  r_yearly_data :: yearly_data
  r_initial_investment :: real
  r_years :: int

text \<open>The four calls of \<^verbatim>\<open>calculate_product_sales\<close>, then the four of \<^verbatim>\<open>calculate_product_revenue\<close>.\<close>

definition product_sales ::
  "dealer \<Rightarrow> scenario \<Rightarrow> int \<Rightarrow>
   error + ((int \<rightharpoonup> real) \<times> (int \<rightharpoonup> real) \<times> (int \<rightharpoonup> real) \<times> (int \<rightharpoonup> real))" where
  "product_sales d s years =
     (case calculate_product_sales (pmg_sales d)
             (dict_get (default_growth_rates s) ''pmg'' (Dict [(1, 5 / 100)])) years of
        Inl e \<Rightarrow> Inl e
      | Inr pmg \<Rightarrow>
     (case calculate_product_sales (hsd_sales d)
             (dict_get (default_growth_rates s) ''hsd'' (Dict [(1, 5 / 100)])) years of
        Inl e \<Rightarrow> Inl e
      | Inr hsd \<Rightarrow>
     (case calculate_product_sales (hobc_sales d)
             (dict_get (default_growth_rates s) ''hobc'' (Dict [(1, 6 / 100)])) years of
        Inl e \<Rightarrow> Inl e
      | Inr hobc \<Rightarrow>
     (case calculate_product_sales (lube_sales d)
             (dict_get (default_growth_rates s) ''lube'' (Dict [(1, 1 / 100)])) years of
        Inl e \<Rightarrow> Inl e
      | Inr lube \<Rightarrow> Inr (pmg, hsd, hobc, lube)))))"

definition product_revenues ::
  "scenario \<Rightarrow> int \<Rightarrow> (int \<rightharpoonup> real) \<Rightarrow> (int \<rightharpoonup> real) \<Rightarrow> (int \<rightharpoonup> real) \<Rightarrow> (int \<rightharpoonup> real) \<Rightarrow>
   error + ((int \<rightharpoonup> real) \<times> (int \<rightharpoonup> real) \<times> (int \<rightharpoonup> real) \<times> (int \<rightharpoonup> real))" where
  "product_revenues s years pmg hsd hobc lube =
     (case calculate_product_revenue pmg
             (dict_get (default_margins s) ''pmg'' (Dict [(1, 5)])) years (inflation_rate s) of
        Inl e \<Rightarrow> Inl e
      | Inr pmg_revenue \<Rightarrow>
     (case calculate_product_revenue hsd
             (dict_get (default_margins s) ''hsd'' (Dict [(1, 4)])) years (inflation_rate s) of
        Inl e \<Rightarrow> Inl e
      | Inr hsd_revenue \<Rightarrow>
     (case calculate_product_revenue hobc
             (dict_get (default_margins s) ''hobc'' (Dict [(1, 6)])) years (inflation_rate s) of
        Inl e \<Rightarrow> Inl e
      | Inr hobc_revenue \<Rightarrow>
     (case calculate_product_revenue lube
             (dict_get (default_margins s) ''lube'' (Dict [(1, 100)])) years (inflation_rate s) of
        Inl e \<Rightarrow> Inl e
      | Inr lube_revenue \<Rightarrow> Inr (pmg_revenue, hsd_revenue, hobc_revenue, lube_revenue)))))"

text \<open>Lines 369-501, for the scenario as the normalisation left it.\<close>

definition run_projection ::
  "(real list \<Rightarrow> real option) \<Rightarrow> dealer \<Rightarrow> scenario \<Rightarrow> int \<Rightarrow> error + results" where
  "run_projection np_irr d s years =
     (case product_sales d s years of
        Inl e \<Rightarrow> Inl e
      | Inr (pmg, hsd, hobc, lube) \<Rightarrow>
     (case product_revenues s years pmg hsd hobc lube of
        Inl e \<Rightarrow> Inl e
      | Inr (pmg_revenue, hsd_revenue, hobc_revenue, lube_revenue) \<Rightarrow>
     (case for_years (total_revenue_year pmg_revenue hsd_revenue hobc_revenue lube_revenue)
             [0..years] Map.empty of
        Inl e \<Rightarrow> Inl e
      | Inr total_revenue \<Rightarrow>
     (case for_years (operating_costs_year s (operating_costs d)) [0..years] Map.empty of
        Inl e \<Rightarrow> Inl e
      | Inr costs \<Rightarrow>
     (case for_years (maintenance_year s years) [0..years] Map.empty of
        Inl e \<Rightarrow> Inl e
      | Inr maintenance \<Rightarrow>
     (case for_years (insurance_year s d (dict_get (insurance_rates s) ''property'' (1 / 100)))
             [0..years] Map.empty of
        Inl e \<Rightarrow> Inl e
      | Inr insurance \<Rightarrow>
     (case for_years (rental_income_year s d years) [0..years] Map.empty of
        Inl e \<Rightarrow> Inl e
      | Inr rental_income \<Rightarrow>
     (let cash_flows = net_cash_flows d total_revenue costs maintenance insurance rental_income
                         (tax_rate s) years
      in case calculate_metrics np_irr cash_flows (discount_rate s) None of
           Inl e \<Rightarrow> Inl e
         | Inr m \<Rightarrow>
             Inr \<lparr> r_npv = m_npv m, r_irr = m_irr m, r_payback_period = m_payback m,
                   r_mirr = m_mirr m, r_cash_flows = cash_flows,
                   r_discounted_cash_flows = m_discounted_cash_flows m,
                   r_cumulative_cash_flows = m_cumulative_cash_flows m,
                   r_yearly_data =
                     \<lparr> y_pmg_sales = pmg, y_hsd_sales = hsd, y_hobc_sales = hobc,
                       y_lube_sales = lube, y_pmg_revenue = pmg_revenue,
                       y_hsd_revenue = hsd_revenue, y_hobc_revenue = hobc_revenue,
                       y_lube_revenue = lube_revenue, y_total_revenue = total_revenue,
                       y_operating_costs = costs, y_maintenance = maintenance,
                       y_insurance = insurance, y_rental_income = rental_income \<rparr>,
                   r_initial_investment = initial_investment d,
                   r_years = years \<rparr>))))))))"

text \<open>
  \<^verbatim>\<open>run_scenario\<close>: the scenario as the call leaves it, and the result or the exception
  (the \<^verbatim>\<open>except\<close> clause logs and re-raises). After the normalisation
  \<^verbatim>\<open>analysis_years\<close> is an int.
\<close>

definition run_scenario ::
  "(real list \<Rightarrow> real option) \<Rightarrow> dealer \<Rightarrow> scenario \<Rightarrow> scenario \<times> (error + results)" where
  "run_scenario np_irr d s0 =
     (let s = normalize_scenario s0
      in (s, case analysis_years s of
               IntYears years \<Rightarrow> run_projection np_irr d s years
             | NotAnInt \<Rightarrow> Inl TypeError))"

section \<open>Test data (test\_metrics.py)\<close>

text \<open>
  The dealer and the first scenario of \<^verbatim>\<open>test_metrics.py\<close>: growth rates and margins are
  given as plain floats, the other fields keep the defaults of the dataclasses.
\<close>

definition test_dealer :: dealer where
  "test_dealer = \<lparr> pmg_sales = 1000, hsd_sales = 2000, hobc_sales = 100, lube_sales = 50,
                   initial_investment = 5000000, operating_costs = 50000, rental_streams = [] \<rparr>"

definition test_scenario1 :: scenario where
  "test_scenario1 =
     \<lparr> discount_rate = 10 / 100, inflation_rate = 5 / 100, analysis_years = IntYears 10,
       default_growth_rates = [''pmg'' \<mapsto> Scalar (5 / 100), ''hsd'' \<mapsto> Scalar (5 / 100),
                               ''hobc'' \<mapsto> Scalar (6 / 100), ''lube'' \<mapsto> Scalar (1 / 100)],
       default_margins = [''pmg'' \<mapsto> Scalar 5, ''hsd'' \<mapsto> Scalar 4,
                          ''hobc'' \<mapsto> Scalar 6, ''lube'' \<mapsto> Scalar 100],
       tax_rate = 29 / 100, signage_maintenance = 5000, signage_maintenance_year = 3,
       other_maintenance = 2000000, other_maintenance_year = 11, insurance_rates = Map.empty \<rparr>"

section \<open>Properties\<close>

subsection \<open>Rounding\<close>

lemma py_round2_of_int: "py_round2 (of_int k) = of_int k"
  by (simp add: py_round2_def Let_def)

subsection \<open>Net present value\<close>

lemma npv_loop_rate_zero:
  "npv_loop 0 t cash_flows npv = Inr (npv + sum_list cash_flows)"
  by (induction cash_flows arbitrary: t npv) (simp_all add: py_truediv_def)

text \<open>
  C8 (as the code has it). At discount rate 0 \<^verbatim>\<open>calculate_npv\<close> never raises and returns
  the plain sum of the cash flows rounded to two decimals: line 26 returns
  \<^verbatim>\<open>round(npv, 2)\<close>, so the result is the undiscounted sum only up to that rounding.
\<close>

theorem C8_npv_rate_zero_rounded_sum:
  "calculate_npv cash_flows 0 = Inr (py_round2 (sum_list cash_flows))"
  by (simp add: calculate_npv_def npv_loop_rate_zero)

text \<open>
  C8 as stated fails: for the one-entry vector \<open>[0.001]\<close> the sum is 0.001 and the NPV at
  rate 0 is 0.
\<close>

theorem C8_counterexample_small_flow:
  "calculate_npv [1 / 1000] 0 = Inr 0 \<and> sum_list [1 / 1000 :: real] \<noteq> 0"
  by (simp add: calculate_npv_def py_truediv_def py_round2_def)

theorem C8_witness_rounded_sum:
  "calculate_npv [- 100, 123 / 1000] 0 = Inr (- 9988 / 100)"
  using C8_npv_rate_zero_rounded_sum [of "[- 100, 123 / 1000]"]
  by (simp add: py_round2_def)

subsection \<open>Internal rate of return\<close>

lemma calculate_irr_no_sign_change:
  assumes "(\<forall>cf \<in> set cash_flows. 0 \<le> cf) \<or> (\<forall>cf \<in> set cash_flows. cf \<le> 0)"
  shows "calculate_irr np_irr cash_flows = None"
proof -
  have "\<not> (list_ex (\<lambda>cf. cf < 0) cash_flows \<and> list_ex (\<lambda>cf. cf > 0) cash_flows)"
    using assms by (auto simp: list_ex_iff)
  then show ?thesis by (simp add: calculate_irr_def Let_def)
qed

lemma calculate_metrics_irr:
  "calculate_metrics np_irr cash_flows dr rr = Inr m \<Longrightarrow>
   m_irr m = (case calculate_irr np_irr cash_flows of Some v \<Rightarrow> v / 100 | None \<Rightarrow> 0)"
  by (auto simp: calculate_metrics_def Let_def split: sum.splits)

lemma calculate_metrics_payback:
  "calculate_metrics np_irr cash_flows dr rr = Inr m \<Longrightarrow>
   m_payback m = (case calculate_payback_period cash_flows of
                    None \<Rightarrow> real (length cash_flows) | Some p \<Rightarrow> p)"
  by (auto simp: calculate_metrics_def Let_def split: sum.splits)

subsection \<open>Payback period\<close>

lemma payback_loop_None:
  "payback_loop i cash_flows c = None \<longleftrightarrow>
   (\<forall>k < length cash_flows. c + sum_list (take (Suc k) cash_flows) < 0)"
proof (induction cash_flows arbitrary: i c)
  case Nil
  then show ?case by simp
next
  case (Cons cf rest)
  show ?case
  proof (cases "c + cf \<ge> 0")
    case True
    then have "payback_loop i (cf # rest) c \<noteq> None" by (simp add: Let_def)
    moreover have "\<not> (\<forall>k < length (cf # rest). c + sum_list (take (Suc k) (cf # rest)) < 0)"
      using True by (auto intro!: exI[of _ 0])
    ultimately show ?thesis by blast
  next
    case False
    have "(\<forall>k < length (cf # rest). c + sum_list (take (Suc k) (cf # rest)) < 0) \<longleftrightarrow>
          (\<forall>k < length rest. (c + cf) + sum_list (take (Suc k) rest) < 0)"
      (is "?L \<longleftrightarrow> ?R")
    proof
      assume l: ?L
      show ?R
      proof (intro allI impI)
        fix k assume "k < length rest"
        then have "c + sum_list (take (Suc (Suc k)) (cf # rest)) < 0" using l by auto
        then show "c + cf + sum_list (take (Suc k) rest) < 0" by (simp add: add.assoc)
      qed
    next
      assume r: ?R
      show ?L
      proof (intro allI impI)
        fix k assume k: "k < length (cf # rest)"
        show "c + sum_list (take (Suc k) (cf # rest)) < 0"
        proof (cases k)
          case 0
          then show ?thesis using False by simp
        next
          case (Suc j)
          then have "j < length rest" using k by simp
          then have "c + cf + sum_list (take (Suc j) rest) < 0" using r by blast
          then show ?thesis using Suc by (simp add: add.assoc)
        qed
      qed
    qed
    then show ?thesis using False Cons.IH [of "Suc i" "c + cf"] by (simp add: Let_def)
  qed
qed

lemma cumulative_loop_length: "length (cumulative_loop c cash_flows) = length cash_flows"
  by (induction cash_flows arbitrary: c) simp_all

lemma cumulative_loop_nth:
  "k < length cash_flows \<Longrightarrow>
   cumulative_loop c cash_flows ! k = c + sum_list (take (Suc k) cash_flows)"
proof (induction cash_flows arbitrary: c k)
  case Nil
  then show ?case by simp
next
  case (Cons cf rest)
  then show ?case by (cases k) (simp_all add: add.assoc)
qed

lemma py_round2_between:
  assumes "of_int a \<le> x" and "x \<le> of_int b"
  shows "of_int a \<le> py_round2 x \<and> py_round2 x \<le> of_int b"
proof -
  define y where "y = x * 100"
  define f where "f = \<lfloor>y\<rfloor>"
  define r where "r = (if y - of_int f < 1 / 2 then f
                 else if 1 / 2 < y - of_int f then f + 1
                 else if even f then f else f + 1)"
  have r: "py_round2 x = of_int r / 100"
    by (simp add: py_round2_def Let_def y_def f_def r_def)
  have "of_int (100 * a) \<le> y" using assms(1) by (simp add: y_def)
  then have lo: "100 * a \<le> f" unfolding f_def by (simp only: le_floor_iff)
  have yb: "y \<le> of_int (100 * b)" using assms(2) by (simp add: y_def)
  have "of_int f \<le> y" unfolding f_def by simp
  then have "real_of_int f \<le> of_int (100 * b)" using yb by linarith
  then have hi: "f \<le> 100 * b" by (simp only: of_int_le_iff)
  have hi': "f + 1 \<le> 100 * b" if "1 / 2 \<le> y - of_int f"
  proof -
    have "real_of_int f < of_int (100 * b)" using that yb by linarith
    then have "f < 100 * b" by (simp only: of_int_less_iff)
    then show ?thesis by simp
  qed
  have "100 * a \<le> r" using lo by (simp add: r_def)
  moreover have "r \<le> 100 * b" using hi hi' by (auto simp: r_def)
  ultimately have "real_of_int (100 * a) \<le> of_int r" "real_of_int r \<le> of_int (100 * b)"
    by (simp_all only: of_int_le_iff)
  then show ?thesis unfolding r by simp
qed

lemma payback_loop_Some:
  "payback_loop i cash_flows c = Some p \<Longrightarrow>
   \<exists>k < length cash_flows.
     (\<forall>j < k. c + sum_list (take (Suc j) cash_flows) < 0) \<and>
     0 \<le> c + sum_list (take (Suc k) cash_flows) \<and>
     p = (if i + k > 0 \<and> cash_flows ! k \<noteq> 0
          then py_round2 (real (i + k) - 1 + (0 - (c + sum_list (take k cash_flows))) / cash_flows ! k)
          else real (i + k))"
proof (induction cash_flows arbitrary: i c)
  case Nil
  then show ?case by simp
next
  case (Cons cf rest)
  show ?case
  proof (cases "c + cf \<ge> 0")
    case True
    then have "p = (if i > 0 \<and> cf \<noteq> 0 then py_round2 (real i - 1 + (0 - c) / cf) else real i)"
      using Cons.prems by (auto simp: Let_def split: if_splits)
    then show ?thesis using True by (intro exI[of _ 0]) simp
  next
    case False
    then have "payback_loop (Suc i) rest (c + cf) = Some p"
      using Cons.prems by (simp add: Let_def)
    from Cons.IH [OF this] obtain k where k: "k < length rest"
      and neg: "\<forall>j < k. c + cf + sum_list (take (Suc j) rest) < 0"
      and pos: "0 \<le> c + cf + sum_list (take (Suc k) rest)"
      and p: "p = (if Suc i + k > 0 \<and> rest ! k \<noteq> 0
          then py_round2 (real (Suc i + k) - 1 + (0 - (c + cf + sum_list (take k rest))) / rest ! k)
          else real (Suc i + k))"
      by blast
    have neg': "\<forall>j < Suc k. c + sum_list (take (Suc j) (cf # rest)) < 0"
    proof (intro allI impI)
      fix j assume j: "j < Suc k"
      show "c + sum_list (take (Suc j) (cf # rest)) < 0"
      proof (cases j)
        case 0
        then show ?thesis using False by simp
      next
        case (Suc j')
        then have "j' < k" using j by simp
        then show ?thesis using neg Suc by (simp add: add.assoc)
      qed
    qed
    show ?thesis
      using k neg' pos p by (intro exI[of _ "Suc k"]) (simp add: add.assoc)
  qed
qed

text \<open>
  C9 (as the code has it). When the payback period \<open>p\<close> is defined there is a first
  index \<open>i\<close> at which the cumulative undiscounted cash flow is non-negative (it is
  negative at every index below \<open>i\<close>); \<open>p\<close> is 0 when \<open>i = 0\<close> and otherwise
  \<open>i - 1 + (- cumulative[i-1]) / cash_flows[i]\<close> rounded to two decimals, which lies in
  \<open>[i - 1, i]\<close>. When \<open>p\<close> is not a whole number, the cumulative cash flow is negative
  at index \<open>floor p\<close> and non-negative at index \<open>ceil p\<close>.
\<close>

theorem C9_payback_first_crossing:
  "calculate_payback_period cash_flows = Some p \<Longrightarrow>
   (\<exists>i < length cash_flows.
      (\<forall>j < i. cumulative_loop 0 cash_flows ! j < 0) \<and>
      0 \<le> cumulative_loop 0 cash_flows ! i \<and>
      p = (if i = 0 then 0
           else py_round2 (real i - 1 + (- (cumulative_loop 0 cash_flows ! (i - 1))) / cash_flows ! i)) \<and>
      real i - 1 \<le> p \<and> p \<le> real i \<and>
      (p \<notin> \<int> \<longrightarrow> cumulative_loop 0 cash_flows ! nat \<lfloor>p\<rfloor> < 0 \<and>
                  0 \<le> cumulative_loop 0 cash_flows ! nat \<lceil>p\<rceil>))"
proof -
  assume "calculate_payback_period cash_flows = Some p"
  then have "payback_loop 0 cash_flows 0 = Some p" by (simp add: calculate_payback_period_def)
  from payback_loop_Some [OF this] obtain k where k: "k < length cash_flows"
    and neg: "\<forall>j < k. sum_list (take (Suc j) cash_flows) < 0"
    and pos: "0 \<le> sum_list (take (Suc k) cash_flows)"
    and p: "p = (if k > 0 \<and> cash_flows ! k \<noteq> 0
          then py_round2 (real k - 1 + (0 - sum_list (take k cash_flows)) / cash_flows ! k)
          else real k)"
    by auto
  have cum: "cumulative_loop 0 cash_flows ! j = sum_list (take (Suc j) cash_flows)"
    if "j < length cash_flows" for j
    using that by (simp add: cumulative_loop_nth)
  have neg_c: "\<forall>j < k. cumulative_loop 0 cash_flows ! j < 0"
    using neg k by (simp add: cum)
  have pos_c: "0 \<le> cumulative_loop 0 cash_flows ! k"
    using pos k by (simp add: cum)
  show ?thesis
  proof (cases k)
    case 0
    then have "p = 0" using p by simp
    then show ?thesis using 0 k pos_c by (intro exI[of _ 0]) simp
  next
    case (Suc k')
    define before where "before = sum_list (take k cash_flows)"
    define cf where "cf = cash_flows ! k"
    have "take (Suc k) cash_flows = take k cash_flows @ [cash_flows ! k]"
      using k by (simp add: take_Suc_conv_app_nth)
    then have split: "sum_list (take (Suc k) cash_flows) = before + cf"
      by (simp add: before_def cf_def)
    have before_neg: "before < 0" using neg Suc by (auto simp: before_def)
    have cf_pos: "0 < cf" using pos split before_neg by linarith
    have before_c: "cumulative_loop 0 cash_flows ! (k - 1) = before"
      using Suc k by (simp add: cum before_def)
    define e where "e = real k - 1 + (0 - before) / cf"
    have frac_pos: "0 < (0 - before) / cf" using before_neg cf_pos by (simp add: divide_neg_pos)
    have "0 - before \<le> 1 * cf" using pos split by linarith
    then have frac_le: "(0 - before) / cf \<le> 1" by (simp only: pos_divide_le_eq [OF cf_pos])
    have pe: "p = py_round2 e" using p Suc cf_pos by (simp add: e_def before_def cf_def)
    have "real_of_int (int k - 1) \<le> e" "e \<le> real_of_int (int k)"
      using frac_pos frac_le by (simp_all add: e_def)
    from py_round2_between [OF this] have bounds: "real k - 1 \<le> p" "p \<le> real k"
      by (simp_all add: pe)
    have nonint: "cumulative_loop 0 cash_flows ! nat \<lfloor>p\<rfloor> < 0 \<and>
                  0 \<le> cumulative_loop 0 cash_flows ! nat \<lceil>p\<rceil>" if "p \<notin> \<int>"
    proof -
      have "p \<noteq> real_of_int (int k - 1)" "p \<noteq> real_of_int (int k)"
        using that by (metis Ints_of_int)+
      then have "real_of_int (int k - 1) < p" "p < real_of_int (int k)"
        using bounds by simp_all
      then have "\<lfloor>p\<rfloor> = int k - 1" "\<lceil>p\<rceil> = int k"
        by (simp_all add: floor_eq_iff ceiling_eq_iff)
      then have "nat \<lfloor>p\<rfloor> = k - 1" "nat \<lceil>p\<rceil> = k" using Suc by simp_all
      then show ?thesis using neg_c pos_c Suc by simp
    qed
    have "p = py_round2 (real k - 1 + (- (cumulative_loop 0 cash_flows ! (k - 1))) / cash_flows ! k)"
      using pe before_c by (simp add: e_def cf_def)
    then show ?thesis
      using k neg_c pos_c bounds nonint Suc by (intro exI[of _ k]) simp
  qed
qed

text \<open>
  C9 as stated fails in both halves: for \<open>[5]\<close> the payback period is 0 and the
  cumulative cash flow at index \<open>floor 0\<close> is 5, not negative; for \<open>[-1, 1000]\<close> the
  fraction 0.001 is rounded to 0, and the cumulative cash flow at index \<open>ceil 0\<close> is -1.
\<close>

theorem C9_counterexample_whole_years:
  "calculate_payback_period [5] = Some 0 \<and>
   \<not> cumulative_loop 0 [5] ! nat \<lfloor>0 :: real\<rfloor> < 0 \<and>
   calculate_payback_period [- 1, 1000] = Some 0 \<and>
   \<not> 0 \<le> cumulative_loop 0 [- 1, 1000] ! nat \<lceil>0 :: real\<rceil>"
  by (simp add: calculate_payback_period_def py_round2_def)

theorem C9_witness_fractional:
  "calculate_payback_period [- 10, 4, 8] = Some (7 / 4) \<and>
   (\<exists>i < length [- 10, 4, 8 :: real]. 
      (\<forall>j < i. cumulative_loop 0 [- 10, 4, 8] ! j < 0) \<and>
      0 \<le> cumulative_loop 0  [- 10, 4, 8] ! i \<and>
      7 / 4 = (if i = 0 then 0
           else py_round2 (real i - 1 + (- (cumulative_loop 0  [- 10, 4, 8] ! (i - 1))) /  [- 10, 4, 8] ! i)) \<and>
      real i - 1 \<le> 7 / 4 \<and> 7 / 4 \<le> real i \<and>
      ((7 / 4 :: real) \<notin> \<int> \<longrightarrow> cumulative_loop 0 [- 10, 4, 8] ! nat \<lfloor>7 / 4 :: real\<rfloor> < 0 \<and>
                  0 \<le> cumulative_loop 0 [- 10, 4, 8] ! nat \<lceil>7 / 4 :: real\<rceil>))"
proof -
  have h: "calculate_payback_period [- 10, 4, 8] = Some (7 / 4)"
    by (simp add: calculate_payback_period_def py_round2_def)
  show ?thesis using h C9_payback_first_crossing [OF h] by simp
qed

subsection \<open>Modified internal rate of return\<close>

lemma terminal_value_loop_sum:
  "terminal_value_loop rr n t (map (max 0) xs) acc =
   acc + sum_list (map (\<lambda>(k, cf). max 0 cf * (1 + rr) ^ (n - 1 - k)) (enumerate t xs))"
proof (induction xs arbitrary: t acc)
  case Nil
  then show ?case by simp
next
  case (Cons x xs)
  show ?case
  proof (cases "0 < x")
    case True
    then have "max 0 x = x" by simp
    then show ?thesis using True Cons.IH [of "Suc t"] by (simp add: add.assoc)
  next
    case False
    then have "max 0 x = 0" by simp
    then show ?thesis using Cons.IH [of "Suc t"] by simp
  qed
qed

lemma npv_loop_Inr_pow_nonzero:
  "npv_loop dr t xs acc = Inr v \<Longrightarrow> k < length xs \<Longrightarrow> (1 + dr) ^ (t + k) \<noteq> 0"
proof (induction xs arbitrary: t acc k)
  case Nil
  then show ?case by simp
next
  case (Cons x xs)
  from Cons.prems(1) have nz: "(1 + dr) ^ t \<noteq> 0"
    and rest: "npv_loop dr (Suc t) xs (acc + x / (1 + dr) ^ t) = Inr v"
    by (auto simp: py_truediv_def split: if_splits)
  show ?case
  proof (cases k)
    case 0
    then show ?thesis using nz by simp
  next
    case (Suc j)
    then have "j < length xs" using Cons.prems(2) by simp
    from Cons.IH [OF rest this] show ?thesis using Suc by simp
  qed
qed

lemma pv_negative_loop_sum:
  "(\<And>k. k < length xs \<Longrightarrow> (1 + dr) ^ (t + k) \<noteq> 0) \<Longrightarrow>
   pv_negative_loop dr t (map (min 0) xs) acc =
   Inr (acc + sum_list (map (\<lambda>(k, cf). \<bar>min 0 cf\<bar> / (1 + dr) ^ k) (enumerate t xs)))"
proof (induction xs arbitrary: t acc)
  case Nil
  then show ?case by simp
next
  case (Cons x xs)
  have nz: "(1 + dr) ^ t \<noteq> 0" using Cons.prems [of 0] by simp
  have "\<And>k. k < length xs \<Longrightarrow> (1 + dr) ^ (Suc t + k) \<noteq> 0"
    using Cons.prems [of "Suc k" for k] by simp
  note ih = Cons.IH [OF this]
  show ?case
  proof (cases "x < 0")
    case True
    then have "min 0 x = x" by simp
    then show ?thesis using True nz ih by (simp add: py_truediv_def add.assoc)
  next
    case False
    then have "min 0 x = 0" by simp
    then show ?thesis using ih by simp
  qed
qed

lemma npv_loop_returns:
  "1 + dr \<noteq> 0 \<Longrightarrow> \<exists>v. npv_loop dr t xs acc = Inr v"
  by (induction xs arbitrary: t acc) (simp_all add: py_truediv_def)

lemma discount_flows_returns:
  "1 + dr \<noteq> 0 \<Longrightarrow> \<exists>qs. discount_flows dr t xs = Inr qs \<and> length qs = length xs"
proof (induction xs arbitrary: t)
  case Nil
  then show ?case by simp
next
  case (Cons x xs)
  from Cons.IH [OF Cons.prems, of "Suc t"] obtain qs
    where "discount_flows dr (Suc t) xs = Inr qs" "length qs = length xs" by blast
  then show ?case using Cons.prems by (simp add: py_truediv_def)
qed

lemma calculate_metrics_returns:
  assumes "1 + dr \<noteq> 0"
  shows "\<exists>m. calculate_metrics np_irr cash_flows dr rr_arg = Inr m"
proof -
  obtain v where "npv_loop dr 0 cash_flows 0 = Inr v"
    using npv_loop_returns [OF assms] by blast
  moreover obtain qs where "discount_flows dr 0 cash_flows = Inr qs"
    using discount_flows_returns [OF assms] by blast
  ultimately show ?thesis
    by (simp add: calculate_metrics_def calculate_npv_def Let_def)
qed

lemma terminal_terms_nonneg:
  assumes "0 < 1 + (rr::real)"
  shows "0 \<le> sum_list (map (\<lambda>(k, cf). max 0 cf * (1 + rr) ^ (n - 1 - k)) (enumerate t xs))"
proof (rule sum_list_nonneg)
  fix y assume "y \<in> set (map (\<lambda>(k, cf). max 0 cf * (1 + rr) ^ (n - 1 - k)) (enumerate t xs))"
  then obtain k cf where "y = max 0 cf * (1 + rr) ^ (n - 1 - k)" by auto
  then show "0 \<le> y" using assms by simp
qed

lemma terminal_terms_pos:
  "0 < 1 + (rr::real) \<Longrightarrow> sum_list (map (max 0) xs) \<noteq> 0 \<Longrightarrow>
   0 < sum_list (map (\<lambda>(k, cf). max 0 cf * (1 + rr) ^ (n - 1 - k)) (enumerate t xs))"
proof (induction xs arbitrary: t)
  case Nil
  then show ?case by simp
next
  case (Cons x xs)
  let ?rest = "sum_list (map (\<lambda>(k, cf). max 0 cf * (1 + rr) ^ (n - 1 - k)) (enumerate (Suc t) xs))"
  have rest: "0 \<le> ?rest" using terminal_terms_nonneg [OF Cons.prems(1)] .
  show ?case
  proof (cases "0 < x")
    case True
    then have "0 < max 0 x" by simp
    moreover have "0 < (1 + rr) ^ (n - 1 - t)" using Cons.prems(1) by simp
    ultimately have "0 < max 0 x * (1 + rr) ^ (n - 1 - t)" by (rule mult_pos_pos)
    then have "0 < max 0 x * (1 + rr) ^ (n - 1 - t) + ?rest" using rest by linarith
    then show ?thesis by simp
  next
    case False
    then have z: "max 0 x = 0" by simp
    then have "sum_list (map (max 0) xs) \<noteq> 0" using Cons.prems(2) by simp
    from Cons.IH [OF Cons.prems(1) this, of "Suc t"] show ?thesis using z by simp
  qed
qed

lemma pv_terms_nonneg:
  assumes "0 < 1 + (dr::real)"
  shows "0 \<le> sum_list (map (\<lambda>(k, cf). \<bar>min 0 cf\<bar> / (1 + dr) ^ k) (enumerate t xs))"
proof (rule sum_list_nonneg)
  fix y assume "y \<in> set (map (\<lambda>(k, cf). \<bar>min 0 cf\<bar> / (1 + dr) ^ k) (enumerate t xs))"
  then obtain k cf where "y = \<bar>min 0 cf\<bar> / (1 + dr) ^ k" by auto
  moreover have "0 \<le> (1 + dr) ^ k" using assms by simp
  ultimately show "0 \<le> y" by (simp only: divide_nonneg_nonneg abs_ge_zero)
qed

lemma pv_terms_pos:
  "0 < 1 + (dr::real) \<Longrightarrow> sum_list (map (min 0) xs) \<noteq> 0 \<Longrightarrow>
   0 < sum_list (map (\<lambda>(k, cf). \<bar>min 0 cf\<bar> / (1 + dr) ^ k) (enumerate t xs))"
proof (induction xs arbitrary: t)
  case Nil
  then show ?case by simp
next
  case (Cons x xs)
  let ?rest = "sum_list (map (\<lambda>(k, cf). \<bar>min 0 cf\<bar> / (1 + dr) ^ k) (enumerate (Suc t) xs))"
  have rest: "0 \<le> ?rest" using pv_terms_nonneg [OF Cons.prems(1)] .
  show ?case
  proof (cases "x < 0")
    case True
    then have "0 < \<bar>min 0 x\<bar>" by simp
    moreover have "0 < (1 + dr) ^ t" using Cons.prems(1) by simp
    ultimately have "0 < \<bar>min 0 x\<bar> / (1 + dr) ^ t" by (rule divide_pos_pos)
    then have "0 < \<bar>min 0 x\<bar> / (1 + dr) ^ t + ?rest" using rest by linarith
    then show ?thesis by simp
  next
    case False
    then have z: "min 0 x = 0" by simp
    then have "sum_list (map (min 0) xs) \<noteq> 0" using Cons.prems(2) by simp
    from Cons.IH [OF Cons.prems(1) this, of "Suc t"] show ?thesis using z by simp
  qed
qed

lemma both_signs_length:
  "sum_list (map (max 0) xs) \<noteq> 0 \<Longrightarrow> sum_list (map (min 0) xs) \<noteq> (0::real) \<Longrightarrow>
   2 \<le> length xs"
proof (cases xs)
  case Nil
  assume "sum_list (map (max 0) xs) \<noteq> 0"
  then show ?thesis using Nil by simp
next
  case (Cons x ys)
  assume a: "sum_list (map (max 0) xs) \<noteq> 0" "sum_list (map (min 0) xs) \<noteq> (0::real)"
  show ?thesis
  proof (cases ys)
    case Nil
    then show ?thesis using a Cons by (auto simp: max_def min_def split: if_splits)
  next
    case (Cons y zs)
    then show ?thesis using \<open>xs = x # ys\<close> by simp
  qed
qed

lemma mirr_try_value:
  assumes "npv_loop dr 0 cash_flows 0 = Inr v"
  shows "mirr_try cash_flows dr rr =
     Inr (if sum_list (map (max 0) cash_flows) = 0 \<or> sum_list (map (min 0) cash_flows) = 0 then 0
          else if 0 < spec_terminal_value rr cash_flows \<and> 0 < spec_pv_negative dr cash_flows
               then spec_mirr cash_flows dr rr
               else 0)"
proof (cases "sum_list (map (max 0) cash_flows) = 0 \<or> sum_list (map (min 0) cash_flows) = 0")
  case True
  then show ?thesis by (simp add: mirr_try_def)
next
  case False
  then have len: "2 \<le> length cash_flows" using both_signs_length by blast
  have tv: "terminal_value_loop rr (length cash_flows) 0 (map (max 0) cash_flows) 0 =
            spec_terminal_value rr cash_flows"
    by (simp add: terminal_value_loop_sum spec_terminal_value_def)
  have "\<And>k. k < length cash_flows \<Longrightarrow> (1 + dr) ^ (0 + k) \<noteq> 0"
    using npv_loop_Inr_pow_nonzero [OF assms] by simp
  from pv_negative_loop_sum [OF this, of cash_flows 0]
  have pv: "pv_negative_loop dr 0 (map (min 0) cash_flows) 0 =
            Inr (spec_pv_negative dr cash_flows)"
    by (simp add: spec_pv_negative_def)
  have "real_of_int (int (length cash_flows) - 1) = real (length cash_flows - 1)"
    using len by simp
  then show ?thesis using False len
    by (simp add: mirr_try_def Let_def tv pv spec_mirr_def)
qed

lemma calculate_metrics_mirr:
  assumes "calculate_metrics np_irr cash_flows dr rr_arg = Inr m"
  shows "m_mirr m =
     (let rr = (case rr_arg of None \<Rightarrow> dr | Some r \<Rightarrow> r)
      in if sum_list (map (max 0) cash_flows) = 0 \<or> sum_list (map (min 0) cash_flows) = 0 then 0
         else if 0 < spec_terminal_value rr cash_flows \<and> 0 < spec_pv_negative dr cash_flows
              then spec_mirr cash_flows dr rr
              else 0)"
proof -
  from assms obtain v where v: "npv_loop dr 0 cash_flows 0 = Inr v"
    by (auto simp: calculate_metrics_def calculate_npv_def split: sum.splits)
  show ?thesis
    using assms
    by (auto simp: calculate_metrics_def Let_def mirr_try_value [OF v] split: sum.splits)
qed

text \<open>
  C7 (as the code has it). Whenever \<^verbatim>\<open>calculate_metrics\<close> returns, with the reinvestment
  rate defaulting to the discount rate: MIRR is 0 when the sum of the positive entries or
  the sum of the negative entries is zero; otherwise it is
  \<open>(terminal value / present value) ^ (1 / horizon) - 1\<close> when the terminal value and the
  present value are both positive, and 0 when one of them is not (the guard of line 198).
  For a discount rate and a reinvestment rate above -1 \<^verbatim>\<open>calculate_metrics\<close> always
  returns and both values are positive, so MIRR is the formula unless a sum is zero.
\<close>

theorem C7_mirr_guarded_formula:
  "(\<forall>m. calculate_metrics np_irr cash_flows dr rr_arg = Inr m \<longrightarrow>
      m_mirr m =
        (let rr = (case rr_arg of None \<Rightarrow> dr | Some r \<Rightarrow> r)
         in if sum_list (map (max 0) cash_flows) = 0 \<or> sum_list (map (min 0) cash_flows) = 0
            then 0
            else if 0 < spec_terminal_value rr cash_flows \<and> 0 < spec_pv_negative dr cash_flows
                 then spec_mirr cash_flows dr rr
                 else 0)) \<and>
   (- 1 < dr \<and> - 1 < (case rr_arg of None \<Rightarrow> dr | Some r \<Rightarrow> r) \<longrightarrow>
      (\<exists>m. calculate_metrics np_irr cash_flows dr rr_arg = Inr m \<and>
         m_mirr m =
           (if sum_list (map (max 0) cash_flows) = 0 \<or> sum_list (map (min 0) cash_flows) = 0
            then 0
            else spec_mirr cash_flows dr (case rr_arg of None \<Rightarrow> dr | Some r \<Rightarrow> r))))"
proof (intro conjI allI impI)
  fix m assume "calculate_metrics np_irr cash_flows dr rr_arg = Inr m"
  from calculate_metrics_mirr [OF this]
  show "m_mirr m =
        (let rr = (case rr_arg of None \<Rightarrow> dr | Some r \<Rightarrow> r)
         in if sum_list (map (max 0) cash_flows) = 0 \<or> sum_list (map (min 0) cash_flows) = 0
            then 0
            else if 0 < spec_terminal_value rr cash_flows \<and> 0 < spec_pv_negative dr cash_flows
                 then spec_mirr cash_flows dr rr
                 else 0)" .
next
  define rr where "rr = (case rr_arg of None \<Rightarrow> dr | Some r \<Rightarrow> r)"
  assume "- 1 < dr \<and> - 1 < (case rr_arg of None \<Rightarrow> dr | Some r \<Rightarrow> r)"
  then have dr: "0 < 1 + dr" and rr: "0 < 1 + rr" by (simp_all add: rr_def)
  from dr have "1 + dr \<noteq> 0" by simp
  from calculate_metrics_returns [OF this] obtain m
    where m: "calculate_metrics np_irr cash_flows dr rr_arg = Inr m" by blast
  have pos: "0 < spec_terminal_value rr cash_flows \<and> 0 < spec_pv_negative dr cash_flows"
    if "sum_list (map (max 0) cash_flows) \<noteq> 0" "sum_list (map (min 0) cash_flows) \<noteq> 0"
    using terminal_terms_pos [OF rr that(1)] pv_terms_pos [OF dr that(2)]
    by (simp add: spec_terminal_value_def spec_pv_negative_def)
  have "m_mirr m =
           (if sum_list (map (max 0) cash_flows) = 0 \<or> sum_list (map (min 0) cash_flows) = 0
            then 0 else spec_mirr cash_flows dr rr)"
    using calculate_metrics_mirr [OF m] pos by (auto simp: Let_def rr_def)
  then show "\<exists>m. calculate_metrics np_irr cash_flows dr rr_arg = Inr m \<and>
         m_mirr m =
           (if sum_list (map (max 0) cash_flows) = 0 \<or> sum_list (map (min 0) cash_flows) = 0
            then 0
            else spec_mirr cash_flows dr (case rr_arg of None \<Rightarrow> dr | Some r \<Rightarrow> r))"
    using m unfolding rr_def by blast
qed

text \<open>
  C7 as stated fails for a rate of -1 or less: for \<open>[50, -100]\<close> at discount rate -2
  both sums are non-zero, the terminal value is -50 and the present value -100, so the
  formula gives -1/2, and the code returns 0.
\<close>

theorem C7_counterexample_rate_below_minus_one:
  "map_sum id m_mirr (calculate_metrics Map.empty [50, - 100] (- 2) None) = Inr 0 \<and>
   sum_list (map (max 0) [50, - 100 :: real]) = 50 \<and>
   sum_list (map (min 0) [50, - 100 :: real]) = - 100 \<and>
   spec_terminal_value (- 2) [50, - 100] = - 50 \<and>
   spec_pv_negative (- 2) [50, - 100] = - 100 \<and>
   spec_mirr [50, - 100] (- 2) (- 2) = - 1 / 2"
  by (simp add: calculate_metrics_def calculate_npv_def py_truediv_def calculate_irr_def
      calculate_payback_period_def mirr_try_def py_round2_def
      spec_terminal_value_def spec_pv_negative_def spec_mirr_def)

theorem C7_witness_two_years:
  "map_sum id m_mirr (calculate_metrics Map.empty [- 100, 400] 0 None) = Inr 3 \<and>
   spec_mirr [- 100, 400] 0 0 = 3"
proof -
  have s: "spec_mirr [- 100, 400] 0 0 = 3"
    by (simp add: spec_terminal_value_def spec_pv_negative_def spec_mirr_def)
  show ?thesis
    using C7_mirr_guarded_formula [of Map.empty "[- 100, 400]" 0 None] s by auto
qed

subsection \<open>Filling in missing years\<close>

lemma for_years_notin:
  "for_years body ys d = Inr d' \<Longrightarrow> y \<notin> set ys \<Longrightarrow> d' y = d y"
  by (induction ys arbitrary: d) (auto split: sum.splits)

lemma for_years_in:
  "for_years body ys d = Inr d' \<Longrightarrow> y \<in> set ys \<Longrightarrow> body y = Inr v \<Longrightarrow> d' y = Some v"
proof (induction ys arbitrary: d)
  case Nil
  then show ?case by simp
next
  case (Cons a ys)
  from Cons.prems(1) obtain w where w: "body a = Inr w"
    and rest: "for_years body ys (d(a \<mapsto> w)) = Inr d'"
    by (auto split: sum.splits)
  show ?case
  proof (cases "y \<in> set ys")
    case True
    from Cons.IH [OF rest True Cons.prems(3)] show ?thesis .
  next
    case False
    then have "y = a" using Cons.prems(2) by simp
    then have "w = v" using w Cons.prems(3) by simp
    moreover have "d' y = (d(a \<mapsto> w)) y" using for_years_notin [OF rest False] .
    ultimately show ?thesis using \<open>y = a\<close> by simp
  qed
qed

lemma for_years_returns:
  "(\<And>y. y \<in> set ys \<Longrightarrow> \<exists>v. body y = Inr v) \<Longrightarrow> \<exists>d'. for_years body ys d = Inr d'"
proof (induction ys arbitrary: d)
  case Nil
  then show ?case by simp
next
  case (Cons a ys)
  obtain w where w: "body a = Inr w" using Cons.prems [of a] by auto
  have "\<exists>d'. for_years body ys (d(a \<mapsto> w)) = Inr d'"
    using Cons.IH Cons.prems by simp
  then show ?case using w by simp
qed

lemma py_max_default_eq:
  "py_max_default xs = (if xs = [] then None else Some (Max (set xs)))"
  by (cases xs) (simp_all add: Max.set_eq_fold [symmetric])

lemma py_min_default_eq:
  "py_min_default xs = (if xs = [] then None else Some (Min (set xs)))"
  by (cases xs) (simp_all add: Min.set_eq_fold [symmetric])

lemma rates_getitem_key:
  "k \<in> fst ` set d \<Longrightarrow> rates_getitem d k = Inr (the (map_of d k))"
proof -
  assume "k \<in> fst ` set d"
  then have "map_of d k \<noteq> None" by (simp add: map_of_eq_None_iff)
  then show ?thesis by (auto simp: rates_getitem_def)
qed

lemma interpolate_year_key:
  "year \<in> fst ` set d \<Longrightarrow> interpolate_year d dys year = Inr (the (map_of d year))"
  by (simp add: interpolate_year_def rates_getitem_key)

lemma interpolate_year_value:
  assumes sub: "set dys \<subseteq> fst ` set d" and ne: "dys \<noteq> []" and nk: "year \<notin> fst ` set d"
  shows "interpolate_year d dys year =
     Inr (let L = {k \<in> set dys. k < year}; U = {k \<in> set dys. year < k}
          in if L = {} then the (map_of d (hd dys))
             else if U = {} then the (map_of d (last dys))
             else the (map_of d (Max L)) +
                  (the (map_of d (Min U)) - the (map_of d (Max L))) *
                  (of_int (year - Max L) / of_int (Min U - Max L)))"
proof -
  define L where "L = {k \<in> set dys. k < year}"
  define U where "U = {k \<in> set dys. year < k}"
  have setL: "set (filter (\<lambda>y. y < year) dys) = L" by (auto simp: L_def)
  have setU: "set (filter (\<lambda>y. y > year) dys) = U" by (auto simp: U_def)
  have lowL: "py_max_default (filter (\<lambda>y. y < year) dys) = (if L = {} then None else Some (Max L))"
    unfolding py_max_default_eq setL using setL by (metis set_empty)
  have upU: "py_min_default (filter (\<lambda>y. y > year) dys) = (if U = {} then None else Some (Min U))"
    unfolding py_min_default_eq setU using setU by (metis set_empty)
  have finL: "finite L" and finU: "finite U" by (simp_all add: L_def U_def)
  have hd_key: "hd dys \<in> fst ` set d" and last_key: "last dys \<in> fst ` set d"
    using sub ne by auto
  have nk': "year \<notin> set (map fst d)" using nk by simp
  show ?thesis
  proof (cases "L = {}")
    case True
    obtain first_year rest where dys: "dys = first_year # rest" using ne by (cases dys) auto
    have "rates_getitem d first_year = Inr (the (map_of d (hd dys)))"
      using rates_getitem_key [OF hd_key] dys by simp
    then show ?thesis
      using True nk' lowL dys unfolding interpolate_year_def Let_def L_def [symmetric] U_def [symmetric]
      by simp
  next
    case False
    note Lne = False
    show ?thesis
    proof (cases "U = {}")
      case True
      show ?thesis
        using True Lne nk' lowL upU ne rates_getitem_key [OF last_key]
        unfolding interpolate_year_def Let_def L_def [symmetric] U_def [symmetric]
        by simp
    next
      case False
      have "Max L \<in> L" using finL Lne by (rule Max_in)
      then have mxl: "Max L \<in> set dys" "Max L < year" by (auto simp: L_def)
      have "Min U \<in> U" using finU False by (rule Min_in)
      then have mnu: "Min U \<in> set dys" "year < Min U" by (auto simp: U_def)
      have kl: "Max L \<in> fst ` set d" and ku: "Min U \<in> fst ` set d" using mxl mnu sub by auto
      have nz: "real_of_int (Min U - Max L) \<noteq> 0" using mxl(2) mnu(2) by simp
      show ?thesis
        using False Lne nk' lowL upU rates_getitem_key [OF kl] rates_getitem_key [OF ku] nz
        unfolding interpolate_year_def Let_def L_def [symmetric] U_def [symmetric]
        by (simp add: py_truediv_def)
    qed
  qed
qed

lemma interpolate_year_returns:
  assumes "set dys \<subseteq> fst ` set d" and "dys \<noteq> []"
  shows "\<exists>v. interpolate_year d dys year = Inr v"
proof (cases "year \<in> fst ` set d")
  case True
  then show ?thesis by (simp add: interpolate_year_key)
next
  case False
  from interpolate_year_value [OF assms False] show ?thesis by blast
qed

lemma sorted_hd_Min_int: "sorted xs \<Longrightarrow> xs \<noteq> [] \<Longrightarrow> hd xs = Min (set (xs :: int list))"
proof (cases xs)
  case Nil
  assume "xs \<noteq> []"
  then show ?thesis using Nil by simp
next
  case (Cons x ys)
  assume "sorted xs"
  then have "\<forall>y \<in> set ys. x \<le> y" using Cons by simp
  then have "Min (insert x (set ys)) = x" by (intro Min_eqI) auto
  then show ?thesis using Cons by simp
qed

lemma sorted_last_Max_int: "sorted xs \<Longrightarrow> xs \<noteq> [] \<Longrightarrow> last xs = Max (set (xs :: int list))"
proof (induction xs)
  case Nil
  then show ?case by simp
next
  case (Cons x ys)
  show ?case
  proof (cases "ys = []")
    case True
    then show ?thesis by simp
  next
    case False
    then have ih: "last ys = Max (set ys)" using Cons by simp
    have "Max (set ys) \<in> set ys" using False by simp
    then have "x \<le> Max (set ys)" using Cons.prems(1) by auto
    then have "Max (insert x (set ys)) = Max (set ys)"
      using False by (simp add: max_def)
    then show ?thesis using False ih by simp
  qed
qed

lemma defined_years_set:
  "set (sort (filter (\<lambda>year. year \<le> H) (map fst d))) = {k \<in> fst ` set d. k \<le> H}"
  by auto

lemma interpolate_rates_Dict:
  assumes "{k \<in> fst ` set d. k \<le> H} \<noteq> {}"
  shows "interpolate_rates dflt (Dict d) H =
         for_years (interpolate_year d (sort (filter (\<lambda>year. year \<le> H) (map fst d)))) [1..H] Map.empty"
proof -
  have "sort (filter (\<lambda>year. year \<le> H) (map fst d)) \<noteq> []"
    using assms defined_years_set [of H d] by (metis set_empty)
  then show ?thesis by (simp add: interpolate_rates_def as_rates_def Let_def)
qed

lemma interpolate_rates_returns:
  "\<exists>table. interpolate_rates dflt rates_arg H = Inr table"
proof -
  define g where "g = as_rates dflt rates_arg H"
  define dys where "dys = sort (filter (\<lambda>year. year \<le> H) (map fst g))"
  show ?thesis
  proof (cases "dys = []")
    case True
    have "\<exists>v. interpolate_year [(1, dflt)] [1] y = Inr v" for y
      by (rule interpolate_year_returns) simp_all
    then have "\<exists>table. for_years (interpolate_year [(1, dflt)] [1]) [1..H] Map.empty = Inr table"
      by (intro for_years_returns) blast
    then show ?thesis using True by (simp add: interpolate_rates_def Let_def g_def dys_def)
  next
    case False
    have "set dys \<subseteq> fst ` set g" by (auto simp: dys_def)
    then have "\<exists>v. interpolate_year g dys y = Inr v" for y
      using False by (intro interpolate_year_returns)
    then have "\<exists>table. for_years (interpolate_year g dys) [1..H] Map.empty = Inr table"
      by (intro for_years_returns) blast
    then show ?thesis using False by (simp add: interpolate_rates_def Let_def g_def dys_def)
  qed
qed

lemma for_years_Inr_body:
  "for_years body ys d = Inr d' \<Longrightarrow> y \<in> set ys \<Longrightarrow> \<exists>v. body y = Inr v"
  by (induction ys arbitrary: d) (auto split: sum.splits)

lemma for_years_value:
  assumes "for_years body ys d = Inr d'" and "y \<in> set ys"
  shows "\<exists>v. body y = Inr v \<and> d' y = Some v"
proof -
  obtain v where "body y = Inr v" using for_years_Inr_body [OF assms] by blast
  then show ?thesis using for_years_in [OF assms] by blast
qed

lemma interpolate_default_year:
  "1 \<le> y \<Longrightarrow> interpolate_year [(1, dflt)] [1] y = Inr dflt"
proof (cases "y = 1")
  case True
  then show ?thesis by (simp add: interpolate_year_key)
next
  case False
  assume "1 \<le> y"
  then have gt: "1 < y" using False by simp
  have nk: "y \<notin> fst ` set [(1 :: int, dflt)]" using gt by simp
  have "{k \<in> set [1 :: int]. k < y} = {1}" "{k \<in> set [1 :: int]. y < k} = {}" using gt by auto
  then show ?thesis
    using interpolate_year_value [of "[1]" "[(1, dflt)]" y, OF _ _ nk] by simp
qed

lemma interpolate_rates_no_defined_years:
  assumes "{k \<in> fst ` set d. k \<le> H} = {}"
    and "interpolate_rates dflt (Dict d) H = Inr table" and "y' \<in> {1..H}"
  shows "table y' = Some dflt"
proof -
  have "sort (filter (\<lambda>year. year \<le> H) (map fst d)) = []"
    using assms(1) defined_years_set [of H d] by (metis set_empty)
  then have t: "for_years (interpolate_year [(1, dflt)] [1]) [1..H] Map.empty = Inr table"
    using assms(2) by (simp add: interpolate_rates_def as_rates_def Let_def)
  have "y' \<in> set [1..H]" using assms(3) by simp
  from for_years_value [OF t this] show ?thesis
    using assms(3) by (simp add: interpolate_default_year)
qed

lemma interpolate_rates_Dict_year:
  assumes K: "{k \<in> fst ` set d. k \<le> H} \<noteq> {}"
    and t: "interpolate_rates dflt (Dict d) H = Inr table" and y: "y \<in> {1..H}"
  shows "table y = Some (case interpolate_year d (sort (filter (\<lambda>year. year \<le> H) (map fst d))) y of
                          Inr v \<Rightarrow> v | Inl e \<Rightarrow> 0) \<and>
         (\<exists>v. interpolate_year d (sort (filter (\<lambda>year. year \<le> H) (map fst d))) y = Inr v)"
proof -
  have "for_years (interpolate_year d (sort (filter (\<lambda>year. year \<le> H) (map fst d)))) [1..H] Map.empty
        = Inr table"
    using t interpolate_rates_Dict [OF K] by simp
  moreover have "y \<in> set [1..H]" using y by simp
  ultimately show ?thesis using for_years_value by fastforce
qed

lemma interpolate_rates_gap_year:
  assumes K: "{k \<in> fst ` set d. k \<le> H} \<noteq> {}"
    and t: "interpolate_rates dflt (Dict d) H = Inr table" and y: "y \<in> {1..H}"
    and nk: "y \<notin> fst ` set d"
  shows "table y =
     Some (let L = {k \<in> fst ` set d. k \<le> H \<and> k < y}; U = {k \<in> fst ` set d. k \<le> H \<and> y < k}
           in if L = {} then the (map_of d (Min U))
              else if U = {} then the (map_of d (Max L))
              else the (map_of d (Max L)) +
                   (the (map_of d (Min U)) - the (map_of d (Max L))) *
                   of_int (y - Max L) / of_int (Min U - Max L))"
proof -
  define dys where "dys = sort (filter (\<lambda>year. year \<le> H) (map fst d))"
  define L where "L = {k \<in> fst ` set d. k \<le> H \<and> k < y}"
  define U where "U = {k \<in> fst ` set d. k \<le> H \<and> y < k}"
  have set_dys: "set dys = {k \<in> fst ` set d. k \<le> H}" unfolding dys_def by (rule defined_years_set)
  have sorted: "sorted dys" by (simp add: dys_def)
  have ne: "dys \<noteq> []" using K set_dys by auto
  have sub: "set dys \<subseteq> fst ` set d" using set_dys by auto
  have L': "{k \<in> set dys. k < y} = L" and U': "{k \<in> set dys. y < k} = U"
    by (auto simp: set_dys L_def U_def)
  have "k \<noteq> y" if "k \<in> fst ` set d" for k using nk that by auto
  then have "k < y \<or> y < k" if "k \<in> fst ` set d" for k using that by fastforce
  then have split: "set dys = L \<union> U" unfolding set_dys L_def U_def by blast
  have hd_eq: "hd dys = Min U" if "L = {}"
    using sorted_hd_Min_int [OF sorted ne] split that by simp
  have last_eq: "last dys = Max L" if "U = {}"
    using sorted_last_Max_int [OF sorted ne] split that by simp
  have "table y = Some (case interpolate_year d dys y of Inr v \<Rightarrow> v | Inl e \<Rightarrow> 0)"
    using interpolate_rates_Dict_year [OF K t y] by (simp add: dys_def)
  also have "interpolate_year d dys y =
     Inr (if L = {} then the (map_of d (hd dys))
          else if U = {} then the (map_of d (last dys))
          else the (map_of d (Max L)) +
               (the (map_of d (Min U)) - the (map_of d (Max L))) *
               (of_int (y - Max L) / of_int (Min U - Max L)))"
    using interpolate_year_value [OF sub ne nk] by (simp add: L' U' Let_def)
  finally show ?thesis
    using hd_eq last_eq by (simp add: Let_def L_def [symmetric] U_def [symmetric])
qed

lemma interpolate_rates_single_key:
  assumes single: "fst ` set d = {k}"
    and t: "interpolate_rates dflt (Dict d) H = Inr table" and y: "y \<in> {1..H}"
  shows "table y = Some (if k \<le> H then the (map_of d k) else dflt)"
proof (cases "k \<le> H")
  case False
  then have "{k \<in> fst ` set d. k \<le> H} = {}" using single by auto
  from interpolate_rates_no_defined_years [OF this t y] show ?thesis using False by simp
next
  case True
  then have K: "{j \<in> fst ` set d. j \<le> H} \<noteq> {}" using single by auto
  show ?thesis
  proof (cases "y = k")
    case True
    then have "y \<in> fst ` set d" using single by simp
    then have "interpolate_year d (sort (filter (\<lambda>year. year \<le> H) (map fst d))) y =
               Inr (the (map_of d y))"
      by (rule interpolate_year_key)
    then show ?thesis using interpolate_rates_Dict_year [OF K t y] True \<open>k \<le> H\<close> by simp
  next
    case False
    then have nk: "y \<notin> fst ` set d" using single by simp
    have L: "{j \<in> fst ` set d. j \<le> H \<and> j < y} = (if k < y then {k} else {})"
      using single True by auto
    have U: "{j \<in> fst ` set d. j \<le> H \<and> y < j} = (if y < k then {k} else {})"
      using single True by auto
    show ?thesis
      using interpolate_rates_gap_year [OF K t y nk] False True unfolding L U
      by (cases "k < y") (simp_all add: Let_def)
  qed
qed

text \<open>
  C5. For a sparse schedule \<open>d\<close> and a horizon \<open>H \<ge> 1\<close> the block that fills in the missing
  years never raises, and for every year \<open>y\<close> in \<open>1..H\<close> that is not a key of \<open>d\<close>, with
  \<open>L\<close> the keys \<open>\<le> H\<close> below \<open>y\<close> and \<open>U\<close> the keys \<open>\<le> H\<close> above \<open>y\<close>: when both exist the
  value at \<open>y\<close> is \<open>lower_value + (upper_value - lower_value) * (y - lower) / (upper - lower)\<close>
  for the nearest keys \<open>lower = Max L\<close> and \<open>upper = Min U\<close>; when only upper keys exist it
  is the value of the nearest one, and when only lower keys exist the value of the nearest
  one. A schedule with exactly one key \<open>k\<close> gives one value to every year \<open>1..H\<close>: the
  value of \<open>k\<close> when \<open>k \<le> H\<close>, and the default otherwise. The block is the same in
  \<^verbatim>\<open>calculate_product_sales\<close> (default 0.05) and \<^verbatim>\<open>calculate_product_revenue\<close> (default 5.0).
\<close>

theorem C5_interpolation_between_defined_years:
  "1 \<le> H \<Longrightarrow>
   \<exists>table. interpolate_rates dflt (Dict d) H = Inr table \<and>
     (\<forall>y. 1 \<le> y \<and> y \<le> H \<and> y \<notin> fst ` set d \<longrightarrow>
        (let L = {k \<in> fst ` set d. k \<le> H \<and> k < y}; U = {k \<in> fst ` set d. k \<le> H \<and> y < k}
         in (L \<noteq> {} \<and> U \<noteq> {} \<longrightarrow>
               table y = Some (the (map_of d (Max L)) +
                               (the (map_of d (Min U)) - the (map_of d (Max L))) *
                               of_int (y - Max L) / of_int (Min U - Max L))) \<and>
            (L = {} \<and> U \<noteq> {} \<longrightarrow> table y = Some (the (map_of d (Min U)))) \<and>
            (L \<noteq> {} \<and> U = {} \<longrightarrow> table y = Some (the (map_of d (Max L)))))) \<and>
     (\<forall>k. fst ` set d = {k} \<longrightarrow>
        (\<forall>y. 1 \<le> y \<and> y \<le> H \<longrightarrow> table y = Some (if k \<le> H then the (map_of d k) else dflt)))"
proof -
  obtain table where t: "interpolate_rates dflt (Dict d) H = Inr table"
    using interpolate_rates_returns by blast
  have gap: "let L = {k \<in> fst ` set d. k \<le> H \<and> k < y}; U = {k \<in> fst ` set d. k \<le> H \<and> y < k}
         in (L \<noteq> {} \<and> U \<noteq> {} \<longrightarrow>
               table y = Some (the (map_of d (Max L)) +
                               (the (map_of d (Min U)) - the (map_of d (Max L))) *
                               of_int (y - Max L) / of_int (Min U - Max L))) \<and>
            (L = {} \<and> U \<noteq> {} \<longrightarrow> table y = Some (the (map_of d (Min U)))) \<and>
            (L \<noteq> {} \<and> U = {} \<longrightarrow> table y = Some (the (map_of d (Max L))))"
    if y: "1 \<le> y \<and> y \<le> H \<and> y \<notin> fst ` set d" for y
  proof (cases "{k \<in> fst ` set d. k \<le> H} = {}")
    case True
    then have "{k \<in> fst ` set d. k \<le> H \<and> k < y} = {}" "{k \<in> fst ` set d. k \<le> H \<and> y < k} = {}"
      by auto
    then show ?thesis by (simp add: Let_def)
  next
    case False
    have "y \<in> {1..H}" using y by simp
    from interpolate_rates_gap_year [OF False t this] y show ?thesis
      by (auto simp: Let_def)
  qed
  have single: "table y = Some (if k \<le> H then the (map_of d k) else dflt)"
    if "fst ` set d = {k}" "1 \<le> y \<and> y \<le> H" for k y
    using interpolate_rates_single_key [OF that(1) t, of y] that(2) by simp
  show ?thesis using t gap single by blast
qed

lemma interpolate_example:
  "interpolate_rates (5 / 100) (Dict [(1, 10), (5, 30)]) 6 =
   Inr [1 \<mapsto> 10, 2 \<mapsto> 15, 3 \<mapsto> 20, 4 \<mapsto> 25, 5 \<mapsto> 30, 6 \<mapsto> 30]"
  by (simp add: interpolate_rates_def as_rates_def interpolate_year_def rates_getitem_def
      py_truediv_def Let_def upto.simps)

theorem C5_witness_two_keys:
  "(1 :: int) \<le> 6 \<and>
   (\<exists>table. interpolate_rates (5 / 100) (Dict [(1, 10), (5, 30)]) 6 = Inr table \<and>
      table 3 = Some 20 \<and> table 6 = Some 30)"
proof -
  have h: "(1 :: int) \<le> 6" by simp
  from C5_interpolation_between_defined_years [OF h, of "5 / 100" "[(1, 10), (5, 30)]"]
  obtain table where t: "interpolate_rates (5 / 100) (Dict [(1, 10), (5, 30)]) 6 = Inr table"
    and gap: "\<And>y. 1 \<le> y \<and> y \<le> 6 \<and> y \<notin> fst ` set [(1 :: int, 10 :: real), (5, 30)] \<Longrightarrow>
        (let L = {k \<in> fst ` set [(1 :: int, 10 :: real), (5, 30)]. k \<le> 6 \<and> k < y};
             U = {k \<in> fst ` set [(1 :: int, 10 :: real), (5, 30)]. k \<le> 6 \<and> y < k}
         in (L \<noteq> {} \<and> U \<noteq> {} \<longrightarrow>
               table y = Some (the (map_of [(1 :: int, 10 :: real), (5, 30)] (Max L)) +
                               (the (map_of [(1, 10), (5, 30)] (Min U)) - the (map_of [(1, 10), (5, 30)] (Max L))) *
                               of_int (y - Max L) / of_int (Min U - Max L))) \<and>
            (L = {} \<and> U \<noteq> {} \<longrightarrow> table y = Some (the (map_of [(1, 10), (5, 30)] (Min U)))) \<and>
            (L \<noteq> {} \<and> U = {} \<longrightarrow> table y = Some (the (map_of [(1, 10), (5, 30)] (Max L)))))"
    by blast
  have L3: "{k \<in> fst ` set [(1 :: int, 10 :: real), (5, 30)]. k \<le> 6 \<and> k < 3} = {1}"
    and U3: "{k \<in> fst ` set [(1 :: int, 10 :: real), (5, 30)]. k \<le> 6 \<and> 3 < k} = {5}"
    and L6: "{k \<in> fst ` set [(1 :: int, 10 :: real), (5, 30)]. k \<le> 6 \<and> k < 6} = {1, 5}"
    and U6: "{k \<in> fst ` set [(1 :: int, 10 :: real), (5, 30)]. k \<le> 6 \<and> 6 < k} = {}"
    by auto
  have "table 3 = Some 20" using gap [of 3] unfolding L3 U3 by (simp add: Let_def)
  moreover have "table 6 = Some 30" using gap [of 6] unfolding L6 U6 by (simp add: Let_def)
  ultimately show ?thesis using t by simp
qed


subsection \<open>Product revenue\<close>

lemma interpolate_rates_defined:
  assumes "interpolate_rates dflt rates_arg H = Inr table" and "1 \<le> y" and "y \<le> H"
  shows "\<exists>v. table y = Some v"
proof -
  obtain body where b: "for_years body [1..H] Map.empty = Inr table"
    using assms(1) by (auto simp: interpolate_rates_def Let_def split: if_splits)
  have "y \<in> set [1..H]" using assms(2,3) by simp
  from for_years_value [OF b this] show ?thesis by blast
qed

lemma revenue_year_zero:
  "revenue_year sales_volumes all_margins infl 0 =
   Inr (dict_get sales_volumes 0 0 * dict_get all_margins 1 5)"
  by (simp add: revenue_year_def)

lemma revenue_year_pos:
  "1 \<le> y \<Longrightarrow> all_margins y = Some m \<Longrightarrow>
   revenue_year sales_volumes all_margins infl y =
   Inr (dict_get sales_volumes y 0 * m * (1 + infl) ^ nat (y - 1))"
  by (simp add: revenue_year_def py_pow_def dict_get_def Let_def)

lemma revenue_year_returns:
  "0 \<le> y \<Longrightarrow> \<exists>v. revenue_year sales_volumes all_margins infl y = Inr v"
  by (simp add: revenue_year_def py_pow_def Let_def)

text \<open>
  C6. For every volume series, margin schedule, horizon \<open>H \<ge> 1\<close> and inflation rate,
  \<^verbatim>\<open>calculate_product_revenue\<close> returns, and with \<open>all_margins\<close> the dense margin table:
  the revenue of year 0 is \<open>volume[0] * margin[1]\<close> with no inflation, and the revenue of
  every year \<open>y\<close> in \<open>1..H\<close> is \<open>volume[y] * margin[y] * (1 + inflation_rate) ^ (y - 1)\<close>,
  whichever way \<open>margin[y]\<close> was obtained. A year missing from the volume series counts as
  volume 0 (\<^verbatim>\<open>sales_volumes.get(year, 0)\<close>).
\<close>

theorem C6_revenue_inflated_margin:
  "1 \<le> H \<Longrightarrow>
   \<exists>all_margins yearly_revenue.
     interpolate_rates 5 margins H = Inr all_margins \<and>
     calculate_product_revenue sales_volumes margins H infl = Inr yearly_revenue \<and>
     (\<exists>m1. all_margins 1 = Some m1 \<and>
            yearly_revenue 0 = Some (dict_get sales_volumes 0 0 * m1)) \<and>
     (\<forall>y. 1 \<le> y \<and> y \<le> H \<longrightarrow>
        (\<exists>m. all_margins y = Some m \<and>
             yearly_revenue y = Some (dict_get sales_volumes y 0 * m * (1 + infl) ^ nat (y - 1))))"
proof -
  assume H: "1 \<le> H"
  obtain all_margins where am: "interpolate_rates 5 margins H = Inr all_margins"
    using interpolate_rates_returns by blast
  have "\<exists>v. revenue_year sales_volumes all_margins infl y = Inr v" if "y \<in> set [0..H]" for y
    using that by (intro revenue_year_returns) simp
  then obtain yearly_revenue
    where yr: "for_years (revenue_year sales_volumes all_margins infl) [0..H] Map.empty
               = Inr yearly_revenue"
    using for_years_returns by blast
  then have cr: "calculate_product_revenue sales_volumes margins H infl = Inr yearly_revenue"
    by (simp add: calculate_product_revenue_def am)
  obtain m1 where m1: "all_margins 1 = Some m1"
    using interpolate_rates_defined [OF am, of 1] H by auto
  have "0 \<in> set [0..H]" using H by simp
  from for_years_in [OF yr this revenue_year_zero]
  have zero: "yearly_revenue 0 = Some (dict_get sales_volumes 0 0 * m1)"
    using m1 by (simp add: dict_get_def)
  have pos: "\<exists>m. all_margins y = Some m \<and>
             yearly_revenue y = Some (dict_get sales_volumes y 0 * m * (1 + infl) ^ nat (y - 1))"
    if y: "1 \<le> y \<and> y \<le> H" for y
  proof -
    obtain m where m: "all_margins y = Some m"
      using interpolate_rates_defined [OF am, of y] y by auto
    have "y \<in> set [0..H]" using y by simp
    have "revenue_year sales_volumes all_margins infl y =
          Inr (dict_get sales_volumes y 0 * m * (1 + infl) ^ nat (y - 1))"
      using y m by (intro revenue_year_pos) simp_all
    from for_years_in [OF yr \<open>y \<in> set [0..H]\<close> this] m show ?thesis by simp
  qed
  show ?thesis using am cr m1 zero pos by blast
qed

lemma margins_example:
  "interpolate_rates 5 (Dict [(1, 5), (3, 7)]) 3 = Inr [1 \<mapsto> 5, 2 \<mapsto> 6, 3 \<mapsto> 7]"
  by (simp add: interpolate_rates_def as_rates_def interpolate_year_def rates_getitem_def
      py_truediv_def Let_def upto.simps)

theorem C6_witness_three_years:
  "(1 :: int) \<le> 3 \<and>
   (\<exists>yearly_revenue.
      calculate_product_revenue [0 \<mapsto> 100, 1 \<mapsto> 110, 2 \<mapsto> 120, 3 \<mapsto> 130]
        (Dict [(1, 5), (3, 7)]) 3 1 = Inr yearly_revenue \<and>
      yearly_revenue 0 = Some 500 \<and> yearly_revenue 1 = Some 550 \<and>
      yearly_revenue 2 = Some 1440 \<and> yearly_revenue 3 = Some 3640)"
proof -
  let ?sv = "[0 \<mapsto> 100, 1 \<mapsto> 110, 2 \<mapsto> 120, 3 \<mapsto> 130] :: int \<rightharpoonup> real"
  have h: "(1 :: int) \<le> 3" by simp
  from C6_revenue_inflated_margin [OF h, of "Dict [(1, 5), (3, 7)]" ?sv 1]
  obtain all_margins yearly_revenue where
    am: "interpolate_rates 5 (Dict [(1, 5), (3, 7)]) 3 = Inr all_margins" and
    cr: "calculate_product_revenue ?sv (Dict [(1, 5), (3, 7)]) 3 1 = Inr yearly_revenue" and
    zero: "\<exists>m1. all_margins 1 = Some m1 \<and> yearly_revenue 0 = Some (dict_get ?sv 0 0 * m1)" and
    pos: "\<forall>y. 1 \<le> y \<and> y \<le> 3 \<longrightarrow>
        (\<exists>m. all_margins y = Some m \<and>
             yearly_revenue y = Some (dict_get ?sv y 0 * m * (1 + 1) ^ nat (y - 1)))"
    by blast
  have tab: "all_margins = [1 \<mapsto> 5, 2 \<mapsto> 6, 3 \<mapsto> 7]" using am margins_example by simp
  have "yearly_revenue 0 = Some 500" using zero by (simp add: tab dict_get_def)
  moreover have "yearly_revenue 1 = Some 550"
    using pos [rule_format, of 1] by (simp add: tab dict_get_def)
  moreover have "yearly_revenue 2 = Some 1440"
    using pos [rule_format, of 2] by (simp add: tab dict_get_def)
  moreover have "yearly_revenue 3 = Some 3640"
    using pos [rule_format, of 3] by (simp add: tab dict_get_def)
  ultimately show ?thesis using cr by simp
qed

subsection \<open>run\_scenario: what the call does to the scenario\<close>

lemma ensure_analysis_years_frame:
  "discount_rate (ensure_analysis_years s) = discount_rate s"
  "inflation_rate (ensure_analysis_years s) = inflation_rate s"
  "tax_rate (ensure_analysis_years s) = tax_rate s"
  "default_growth_rates (ensure_analysis_years s) = default_growth_rates s"
  "default_margins (ensure_analysis_years s) = default_margins s"
  "signage_maintenance (ensure_analysis_years s) = signage_maintenance s"
  "signage_maintenance_year (ensure_analysis_years s) = signage_maintenance_year s"
  "other_maintenance (ensure_analysis_years s) = other_maintenance s"
  "other_maintenance_year (ensure_analysis_years s) = other_maintenance_year s"
  "insurance_rates (ensure_analysis_years s) = insurance_rates s"
  by (simp_all add: ensure_analysis_years_def split: years_value.splits)

lemma ensure_analysis_years_years:
  "analysis_years (ensure_analysis_years s) =
   IntYears (case analysis_years s of IntYears n \<Rightarrow> n | NotAnInt \<Rightarrow> 15)"
  by (simp add: ensure_analysis_years_def split: years_value.splits)

lemma ensure_growth_rate_frame:
  "discount_rate (ensure_growth_rate q s) = discount_rate s"
  "inflation_rate (ensure_growth_rate q s) = inflation_rate s"
  "tax_rate (ensure_growth_rate q s) = tax_rate s"
  "analysis_years (ensure_growth_rate q s) = analysis_years s"
  "default_margins (ensure_growth_rate q s) = default_margins s"
  "signage_maintenance (ensure_growth_rate q s) = signage_maintenance s"
  "signage_maintenance_year (ensure_growth_rate q s) = signage_maintenance_year s"
  "other_maintenance (ensure_growth_rate q s) = other_maintenance s"
  "other_maintenance_year (ensure_growth_rate q s) = other_maintenance_year s"
  "insurance_rates (ensure_growth_rate q s) = insurance_rates s"
  by (simp_all add: ensure_growth_rate_def split: option.splits schedule.splits)

lemma ensure_margin_frame:
  "discount_rate (ensure_margin q s) = discount_rate s"
  "inflation_rate (ensure_margin q s) = inflation_rate s"
  "tax_rate (ensure_margin q s) = tax_rate s"
  "analysis_years (ensure_margin q s) = analysis_years s"
  "default_growth_rates (ensure_margin q s) = default_growth_rates s"
  "signage_maintenance (ensure_margin q s) = signage_maintenance s"
  "signage_maintenance_year (ensure_margin q s) = signage_maintenance_year s"
  "other_maintenance (ensure_margin q s) = other_maintenance s"
  "other_maintenance_year (ensure_margin q s) = other_maintenance_year s"
  "insurance_rates (ensure_margin q s) = insurance_rates s"
  by (simp_all add: ensure_margin_def split: option.splits schedule.splits)

lemma ensure_growth_rate_rates:
  "default_growth_rates (ensure_growth_rate q s) p =
   (if p = q
    then Some (case default_growth_rates s q of
                 None \<Rightarrow> Dict [(1, 5 / 100)]
               | Some (Dict d) \<Rightarrow> Dict d
               | Some (Scalar v) \<Rightarrow> Dict [(1, v)]
               | Some NonNumeric \<Rightarrow> Dict [(1, 5 / 100)])
    else default_growth_rates s p)"
  by (simp add: ensure_growth_rate_def split: option.splits schedule.splits)

lemma ensure_margin_margins:
  "default_margins (ensure_margin q s) p =
   (if p = q
    then Some (case default_margins s q of
                 None \<Rightarrow> Dict [(1, dict_get default_values q 5)]
               | Some (Dict d) \<Rightarrow> Dict d
               | Some (Scalar v) \<Rightarrow> Dict [(1, v)]
               | Some NonNumeric \<Rightarrow> Dict [(1, dict_get default_values q 5)])
    else default_margins s p)"
  by (simp add: ensure_margin_def split: option.splits schedule.splits)

lemmas normalize_frame = ensure_analysis_years_frame ensure_growth_rate_frame ensure_margin_frame

lemma normalize_scenario_frame:
  "discount_rate (normalize_scenario s) = discount_rate s"
  "inflation_rate (normalize_scenario s) = inflation_rate s"
  "tax_rate (normalize_scenario s) = tax_rate s"
  "signage_maintenance (normalize_scenario s) = signage_maintenance s"
  "signage_maintenance_year (normalize_scenario s) = signage_maintenance_year s"
  "other_maintenance (normalize_scenario s) = other_maintenance s"
  "other_maintenance_year (normalize_scenario s) = other_maintenance_year s"
  "insurance_rates (normalize_scenario s) = insurance_rates s"
  by (simp_all add: normalize_scenario_def normalize_frame)

lemma normalize_scenario_years:
  "analysis_years (normalize_scenario s) =
   IntYears (case analysis_years s of IntYears n \<Rightarrow> n | NotAnInt \<Rightarrow> 15)"
  by (simp add: normalize_scenario_def normalize_frame ensure_analysis_years_years)

lemma normalize_scenario_growth:
  "p \<in> set [''pmg'', ''hsd'', ''hobc'', ''lube''] \<Longrightarrow>
   default_growth_rates (normalize_scenario s) p =
   Some (case default_growth_rates s p of
           None \<Rightarrow> Dict [(1, 5 / 100)]
         | Some (Dict d) \<Rightarrow> Dict d
         | Some (Scalar v) \<Rightarrow> Dict [(1, v)]
         | Some NonNumeric \<Rightarrow> Dict [(1, 5 / 100)])"
  by (auto simp: normalize_scenario_def normalize_frame ensure_growth_rate_rates)

lemma normalize_scenario_margins:
  "p \<in> set [''pmg'', ''hsd'', ''hobc'', ''lube''] \<Longrightarrow>
   default_margins (normalize_scenario s) p =
   Some (case default_margins s p of
           None \<Rightarrow> Dict [(1, dict_get default_values p 5)]
         | Some (Dict d) \<Rightarrow> Dict d
         | Some (Scalar v) \<Rightarrow> Dict [(1, v)]
         | Some NonNumeric \<Rightarrow> Dict [(1, dict_get default_values p 5)])"
  by (auto simp: normalize_scenario_def normalize_frame ensure_margin_margins)

lemma run_scenario_fst: "fst (run_scenario np_irr d s) = normalize_scenario s"
  by (simp add: run_scenario_def Let_def)

lemma run_scenario_snd:
  "snd (run_scenario np_irr d s) =
   run_projection np_irr d (normalize_scenario s)
     (case analysis_years s of IntYears n \<Rightarrow> n | NotAnInt \<Rightarrow> 15)"
  by (simp add: run_scenario_def Let_def normalize_scenario_years)

text \<open>
  C10. \<^verbatim>\<open>run_scenario\<close> changes the scenario it is passed: for each of the four products,
  a growth rate or a margin given as a scalar is replaced by the dict \<open>{1: value}\<close>, a
  missing entry is replaced by the product's default (\<open>{1: 0.05}\<close> for growth rates,
  \<open>{1: default_values[product]}\<close> for margins), and an \<^verbatim>\<open>analysis_years\<close> that is not an int is
  reset to 15; in each of these cases the scenario after the call differs from the
  scenario before it, whether or not the projection then succeeds.
\<close>

theorem C10_run_scenario_mutates_scenario:
  "p \<in> set [''pmg'', ''hsd'', ''hobc'', ''lube''] \<Longrightarrow>
   (default_growth_rates s p = Some (Scalar v) \<longrightarrow>
      default_growth_rates (fst (run_scenario np_irr d s)) p = Some (Dict [(1, v)]) \<and>
      fst (run_scenario np_irr d s) \<noteq> s) \<and>
   (default_margins s p = Some (Scalar v) \<longrightarrow>
      default_margins (fst (run_scenario np_irr d s)) p = Some (Dict [(1, v)]) \<and>
      fst (run_scenario np_irr d s) \<noteq> s) \<and>
   (default_growth_rates s p = None \<longrightarrow>
      default_growth_rates (fst (run_scenario np_irr d s)) p = Some (Dict [(1, 5 / 100)]) \<and>
      fst (run_scenario np_irr d s) \<noteq> s) \<and>
   (default_margins s p = None \<longrightarrow>
      default_margins (fst (run_scenario np_irr d s)) p =
        Some (Dict [(1, dict_get default_values p 5)]) \<and>
      fst (run_scenario np_irr d s) \<noteq> s) \<and>
   (analysis_years s = NotAnInt \<longrightarrow>
      analysis_years (fst (run_scenario np_irr d s)) = IntYears 15 \<and>
      fst (run_scenario np_irr d s) \<noteq> s)"
proof -
  assume p: "p \<in> set [''pmg'', ''hsd'', ''hobc'', ''lube'']"
  let ?s' = "fst (run_scenario np_irr d s)"
  have g: "default_growth_rates ?s' p =
           Some (case default_growth_rates s p of
                   None \<Rightarrow> Dict [(1, 5 / 100)]
                 | Some (Dict d) \<Rightarrow> Dict d
                 | Some (Scalar v) \<Rightarrow> Dict [(1, v)]
                 | Some NonNumeric \<Rightarrow> Dict [(1, 5 / 100)])"
    unfolding run_scenario_fst using p by (rule normalize_scenario_growth)
  have m: "default_margins ?s' p =
           Some (case default_margins s p of
                   None \<Rightarrow> Dict [(1, dict_get default_values p 5)]
                 | Some (Dict d) \<Rightarrow> Dict d
                 | Some (Scalar v) \<Rightarrow> Dict [(1, v)]
                 | Some NonNumeric \<Rightarrow> Dict [(1, dict_get default_values p 5)])"
    unfolding run_scenario_fst using p by (rule normalize_scenario_margins)
  have y: "analysis_years ?s' = IntYears (case analysis_years s of IntYears n \<Rightarrow> n | NotAnInt \<Rightarrow> 15)"
    unfolding run_scenario_fst by (rule normalize_scenario_years)
  have neq_g: "?s' \<noteq> s" if "default_growth_rates ?s' p \<noteq> default_growth_rates s p"
    using that by auto
  have neq_m: "?s' \<noteq> s" if "default_margins ?s' p \<noteq> default_margins s p"
    using that by auto
  have neq_y: "?s' \<noteq> s" if "analysis_years ?s' \<noteq> analysis_years s"
    using that by auto
  show ?thesis
  proof (intro conjI impI)
    assume a: "default_growth_rates s p = Some (Scalar v)"
    show "default_growth_rates ?s' p = Some (Dict [(1, v)])" using g a by simp
    then show "?s' \<noteq> s" using a by (intro neq_g) simp
  next
    assume a: "default_margins s p = Some (Scalar v)"
    show "default_margins ?s' p = Some (Dict [(1, v)])" using m a by simp
    then show "?s' \<noteq> s" using a by (intro neq_m) simp
  next
    assume a: "default_growth_rates s p = None"
    show "default_growth_rates ?s' p = Some (Dict [(1, 5 / 100)])" using g a by simp
    then show "?s' \<noteq> s" using a by (intro neq_g) simp
  next
    assume a: "default_margins s p = None"
    show "default_margins ?s' p = Some (Dict [(1, dict_get default_values p 5)])"
      using m a by simp
    then show "?s' \<noteq> s" using a by (intro neq_m) simp
  next
    assume a: "analysis_years s = NotAnInt"
    show "analysis_years ?s' = IntYears 15" using y a by simp
    then show "?s' \<noteq> s" using a by (intro neq_y) simp
  qed
qed

theorem C10_witness_scalar_growth_rate:
  "default_growth_rates test_scenario1 ''pmg'' = Some (Scalar (5 / 100)) \<and>
   default_growth_rates (fst (run_scenario Map.empty test_dealer test_scenario1)) ''pmg'' =
     Some (Dict [(1, 5 / 100)]) \<and>
   fst (run_scenario Map.empty test_dealer test_scenario1) \<noteq> test_scenario1"
proof -
  have h: "default_growth_rates test_scenario1 ''pmg'' = Some (Scalar (5 / 100))"
    by (simp add: test_scenario1_def)
  show ?thesis
    using h C10_run_scenario_mutates_scenario [of "''pmg''" test_scenario1 "5 / 100" Map.empty test_dealer]
    by simp
qed

subsection \<open>run\_scenario: the projection\<close>

lemma sales_loop_returns:
  "(\<And>y. a \<le> y \<Longrightarrow> y \<le> b \<Longrightarrow> \<exists>g. all_growth_rates y = Some g) \<Longrightarrow>
   \<exists>p. yearly_sales (a - 1) = Some p \<Longrightarrow>
   \<exists>ys. sales_loop all_growth_rates [a..b] yearly_sales = Inr ys"
proof (induction a b arbitrary: yearly_sales rule: upto.induct)
  case (1 i j)
  show ?case
  proof (cases "i \<le> j")
    case False
    then show ?thesis by (simp add: upto.simps)
  next
    case True
    obtain p where p: "yearly_sales (i - 1) = Some p" using "1.prems"(2) by blast
    obtain g where g: "all_growth_rates i = Some g" using "1.prems"(1) [of i] True by auto
    let ?ys = "yearly_sales(i \<mapsto> p * (1 + g))"
    have "\<exists>ys. sales_loop all_growth_rates [i + 1..j] ?ys = Inr ys"
    proof (rule "1.IH" [OF True])
      fix y assume "i + 1 \<le> y" "y \<le> j"
      then show "\<exists>g. all_growth_rates y = Some g" using "1.prems"(1) [of y] by simp
    next
      show "\<exists>p. ?ys (i + 1 - 1) = Some p" by simp
    qed
    then show ?thesis using True p g by (simp add: upto_rec1)
  qed
qed

lemma calculate_product_sales_returns:
  "\<exists>ys. calculate_product_sales base_sales growth_rates years = Inr ys"
proof -
  obtain table where t: "interpolate_rates (5 / 100) growth_rates years = Inr table"
    using interpolate_rates_returns by blast
  have "\<exists>g. table y = Some g" if "1 \<le> y" "y \<le> years" for y
    using interpolate_rates_defined [OF t that] .
  then have "\<exists>ys. sales_loop table [1..years] (Map.empty(0 \<mapsto> base_sales * 365)) = Inr ys"
    by (intro sales_loop_returns) simp_all
  then show ?thesis using t by (simp add: calculate_product_sales_def)
qed

lemma calculate_product_revenue_returns:
  "\<exists>yr. calculate_product_revenue sales_volumes margins years infl = Inr yr"
proof -
  obtain all_margins where am: "interpolate_rates 5 margins years = Inr all_margins"
    using interpolate_rates_returns by blast
  have "\<exists>v. revenue_year sales_volumes all_margins infl y = Inr v" if "y \<in> set [0..years]" for y
    using that by (intro revenue_year_returns) simp
  then have "\<exists>yr. for_years (revenue_year sales_volumes all_margins infl) [0..years] Map.empty
               = Inr yr"
    by (rule for_years_returns)
  then show ?thesis using am by (simp add: calculate_product_revenue_def)
qed

lemma product_sales_returns: "\<exists>v. product_sales d s years = Inr v"
proof -
  obtain a where a: "calculate_product_sales (pmg_sales d)
      (dict_get (default_growth_rates s) ''pmg'' (Dict [(1, 5 / 100)])) years = Inr a"
    using calculate_product_sales_returns by blast
  obtain b where b: "calculate_product_sales (hsd_sales d)
      (dict_get (default_growth_rates s) ''hsd'' (Dict [(1, 5 / 100)])) years = Inr b"
    using calculate_product_sales_returns by blast
  obtain c where c: "calculate_product_sales (hobc_sales d)
      (dict_get (default_growth_rates s) ''hobc'' (Dict [(1, 6 / 100)])) years = Inr c"
    using calculate_product_sales_returns by blast
  obtain e where e: "calculate_product_sales (lube_sales d)
      (dict_get (default_growth_rates s) ''lube'' (Dict [(1, 1 / 100)])) years = Inr e"
    using calculate_product_sales_returns by blast
  show ?thesis using a b c e by (simp add: product_sales_def)
qed

lemma product_revenues_returns: "\<exists>v. product_revenues s years pmg hsd hobc lube = Inr v"
proof -
  obtain a where a: "calculate_product_revenue pmg
      (dict_get (default_margins s) ''pmg'' (Dict [(1, 5)])) years (inflation_rate s) = Inr a"
    using calculate_product_revenue_returns by blast
  obtain b where b: "calculate_product_revenue hsd
      (dict_get (default_margins s) ''hsd'' (Dict [(1, 4)])) years (inflation_rate s) = Inr b"
    using calculate_product_revenue_returns by blast
  obtain c where c: "calculate_product_revenue hobc
      (dict_get (default_margins s) ''hobc'' (Dict [(1, 6)])) years (inflation_rate s) = Inr c"
    using calculate_product_revenue_returns by blast
  obtain e where e: "calculate_product_revenue lube
      (dict_get (default_margins s) ''lube'' (Dict [(1, 100)])) years (inflation_rate s) = Inr e"
    using calculate_product_revenue_returns by blast
  show ?thesis using a b c e by (simp add: product_revenues_def)
qed

lemma py_pow_returns: "x \<noteq> 0 \<or> 0 \<le> n \<Longrightarrow> \<exists>v. py_pow x n = Inr v"
  by (auto simp: py_pow_def)

lemma operating_costs_year_returns:
  "0 \<le> year \<Longrightarrow> \<exists>v. operating_costs_year s monthly_costs year = Inr v"
  by (simp add: operating_costs_year_def py_pow_def)

lemma insurance_year_returns:
  "0 \<le> year \<Longrightarrow> \<exists>v. insurance_year s d insurance_rate year = Inr v"
  by (simp add: insurance_year_def py_pow_def)

lemma maintenance_year_returns:
  assumes "0 \<le> year" and "year \<le> years"
    and "signage_maintenance_year s \<noteq> 0 \<or> years < 1" and "1 + inflation_rate s \<noteq> 0"
  shows "\<exists>v. maintenance_year s years year = Inr v"
proof -
  obtain f where f: "py_pow (1 + inflation_rate s) (year - 1) = Inr f"
    using py_pow_returns assms(4) by blast
  have "year > 0 \<Longrightarrow> signage_maintenance_year s \<noteq> 0" using assms(2,3) by auto
  then show ?thesis using f by (auto simp: maintenance_year_def)
qed

lemma rental_streams_loop_returns:
  "1 + inflation_rate s \<noteq> 0 \<Longrightarrow> \<exists>v. rental_streams_loop s years year streams income = Inr v"
proof (induction streams arbitrary: income)
  case Nil
  then show ?case by simp
next
  case (Cons stream rest)
  obtain f where f: "py_pow (1 + inflation_rate s) (year - 1) = Inr f"
    using py_pow_returns Cons.prems by blast
  show ?case using Cons.IH [OF Cons.prems] f by (simp add: Let_def)
qed

lemma calculate_metrics_returns_single:
  "\<exists>m. calculate_metrics np_irr [x] dr rr_arg = Inr m"
  by (simp add: calculate_metrics_def calculate_npv_def py_truediv_def Let_def)

lemma net_cash_flows_no_years:
  "years < 1 \<Longrightarrow> net_cash_flows d tr oc mt ins ri rate years = [- initial_investment d]"
  by (simp add: net_cash_flows_def)

lemma run_projection_returns:
  assumes smy: "signage_maintenance_year s \<noteq> 0 \<or> years < 1"
    and infl: "1 + inflation_rate s \<noteq> 0"
    and dr: "1 + discount_rate s \<noteq> 0 \<or> years < 1"
  shows "\<exists>r. run_projection np_irr d s years = Inr r"
proof -
  obtain pmg hsd hobc lube where ps: "product_sales d s years = Inr (pmg, hsd, hobc, lube)"
    using product_sales_returns [of d s years] by (metis prod_cases4)
  obtain pr hr br lr where rv: "product_revenues s years pmg hsd hobc lube = Inr (pr, hr, br, lr)"
    using product_revenues_returns [of s years pmg hsd hobc lube] by (metis prod_cases4)
  obtain tr where tr: "for_years (total_revenue_year pr hr br lr) [0..years] Map.empty = Inr tr"
    using for_years_returns [of "[0..years]" "total_revenue_year pr hr br lr"]
    by (auto simp: total_revenue_year_def)
  have "\<exists>v. operating_costs_year s (operating_costs d) y = Inr v" if "y \<in> set [0..years]" for y
    using that by (intro operating_costs_year_returns) simp
  then obtain oc
    where oc: "for_years (operating_costs_year s (operating_costs d)) [0..years] Map.empty = Inr oc"
    using for_years_returns by blast
  have "\<exists>v. maintenance_year s years y = Inr v" if "y \<in> set [0..years]" for y
    using that smy infl by (intro maintenance_year_returns) simp_all
  then obtain mt where mt: "for_years (maintenance_year s years) [0..years] Map.empty = Inr mt"
    using for_years_returns by blast
  have "\<exists>v. insurance_year s d (dict_get (insurance_rates s) ''property'' (1 / 100)) y = Inr v"
    if "y \<in> set [0..years]" for y
    using that by (intro insurance_year_returns) simp
  then obtain ins
    where ins: "for_years (insurance_year s d (dict_get (insurance_rates s) ''property'' (1 / 100)))
                  [0..years] Map.empty = Inr ins"
    using for_years_returns by blast
  have "\<exists>v. rental_income_year s d years y = Inr v" for y
    unfolding rental_income_year_def using infl by (rule rental_streams_loop_returns)
  then obtain ri where ri: "for_years (rental_income_year s d years) [0..years] Map.empty = Inr ri"
    using for_years_returns by blast
  have "\<exists>m. calculate_metrics np_irr (net_cash_flows d tr oc mt ins ri (tax_rate s) years)
               (discount_rate s) None = Inr m"
  proof (cases "years < 1")
    case True
    then show ?thesis by (simp add: net_cash_flows_no_years calculate_metrics_returns_single)
  next
    case False
    then have "1 + discount_rate s \<noteq> 0" using dr by simp
    then show ?thesis by (rule calculate_metrics_returns)
  qed
  then obtain m where m: "calculate_metrics np_irr (net_cash_flows d tr oc mt ins ri (tax_rate s) years)
               (discount_rate s) None = Inr m" by blast
  show ?thesis using ps rv tr oc mt ins ri m by (simp add: run_projection_def Let_def)
qed

lemma run_projection_result:
  "run_projection np_irr d s years = Inr r \<Longrightarrow>
   r_cash_flows r =
     net_cash_flows d (y_total_revenue (r_yearly_data r)) (y_operating_costs (r_yearly_data r))
       (y_maintenance (r_yearly_data r)) (y_insurance (r_yearly_data r))
       (y_rental_income (r_yearly_data r)) (tax_rate s) years \<and>
   r_years r = years \<and> r_initial_investment r = initial_investment d"
  by (auto simp: run_projection_def Let_def split: sum.splits prod.splits)

lemma net_cash_flows_nth:
  "1 \<le> y \<Longrightarrow> y \<le> years \<Longrightarrow>
   net_cash_flows d tr oc mt ins ri rate years ! nat y = cash_flow_year tr oc mt ins ri rate y"
proof -
  assume y: "1 \<le> y" "y \<le> years"
  then have n: "nat y = Suc (nat (y - 1))" by simp
  have "nat (y - 1) < length [1..years]" using y by simp
  moreover have "[1..years] ! nat (y - 1) = y" using y by simp
  ultimately show ?thesis unfolding net_cash_flows_def n by simp
qed

lemma net_cash_flows_length:
  "length (net_cash_flows d tr oc mt ins ri rate years) = nat years + 1"
  by (simp add: net_cash_flows_def)

text \<open>
  C1. For every run of \<^verbatim>\<open>run_scenario\<close> that returns a result: entry 0 of the cash-flow
  vector is the negated initial investment, the vector has \<open>horizon + 1\<close> entries, and for
  every year \<open>y\<close> in \<open>1..horizon\<close> entry \<open>y\<close> is \<open>pretax - tax\<close> with
  \<open>pretax = total_revenue[y] - operating_costs[y] - maintenance[y] - insurance[y] +
  rental_income[y]\<close> (the series of the result's yearly data) and
  \<open>tax = max(0, pretax) * tax_rate\<close>; when \<open>pretax < 0\<close> the entry is \<open>pretax\<close> unchanged.
\<close>

theorem C1_cash_flow_vector_after_tax:
  "snd (run_scenario np_irr d s) = Inr r \<Longrightarrow>
   r_cash_flows r ! 0 = - initial_investment d \<and>
   length (r_cash_flows r) = nat (r_years r) + 1 \<and>
   analysis_years (fst (run_scenario np_irr d s)) = IntYears (r_years r) \<and>
   (\<forall>y. 1 \<le> y \<and> y \<le> r_years r \<longrightarrow>
      (let total_revenue = dict_get (y_total_revenue (r_yearly_data r)) y 0;
           operating_cost = dict_get (y_operating_costs (r_yearly_data r)) y 0;
           maintenance = dict_get (y_maintenance (r_yearly_data r)) y 0;
           insurance = dict_get (y_insurance (r_yearly_data r)) y 0;
           rental_income = dict_get (y_rental_income (r_yearly_data r)) y 0;
           pretax = total_revenue - operating_cost - maintenance - insurance + rental_income;
           tax = max 0 pretax * tax_rate s
       in r_cash_flows r ! nat y = pretax - tax \<and>
          (pretax < 0 \<longrightarrow> r_cash_flows r ! nat y = pretax)))"
proof -
  assume a: "snd (run_scenario np_irr d s) = Inr r"
  define years where "years = (case analysis_years s of IntYears n \<Rightarrow> n | NotAnInt \<Rightarrow> 15)"
  have rp: "run_projection np_irr d (normalize_scenario s) years = Inr r"
    using a by (simp add: run_scenario_snd years_def)
  note res = run_projection_result [OF rp, unfolded normalize_scenario_frame]
  have yrs: "r_years r = years" using res by simp
  have cf: "r_cash_flows r =
     net_cash_flows d (y_total_revenue (r_yearly_data r)) (y_operating_costs (r_yearly_data r))
       (y_maintenance (r_yearly_data r)) (y_insurance (r_yearly_data r))
       (y_rental_income (r_yearly_data r)) (tax_rate s) years"
    using res by simp
  have c0: "r_cash_flows r ! 0 = - initial_investment d"
    unfolding cf by (simp add: net_cash_flows_def)
  have len: "length (r_cash_flows r) = nat (r_years r) + 1"
    unfolding cf yrs by (rule net_cash_flows_length)
  have ay: "analysis_years (fst (run_scenario np_irr d s)) = IntYears (r_years r)"
    by (simp add: run_scenario_fst normalize_scenario_years yrs years_def)
  have nth: "r_cash_flows r ! nat y =
             cash_flow_year (y_total_revenue (r_yearly_data r)) (y_operating_costs (r_yearly_data r))
               (y_maintenance (r_yearly_data r)) (y_insurance (r_yearly_data r))
               (y_rental_income (r_yearly_data r)) (tax_rate s) y"
    if "1 \<le> y \<and> y \<le> r_years r" for y
    unfolding cf using that yrs by (intro net_cash_flows_nth) simp_all
  show ?thesis
    using c0 len ay nth by (auto simp: Let_def cash_flow_year_def)
qed

lemmas run_scenario_eval =
  run_scenario_def normalize_scenario_def ensure_analysis_years_def ensure_growth_rate_def
  ensure_margin_def default_values_def dict_get_def run_projection_def product_sales_def
  product_revenues_def calculate_product_sales_def calculate_product_revenue_def
  interpolate_rates_def as_rates_def interpolate_year_def rates_getitem_def revenue_year_def
  total_revenue_year_def operating_costs_year_def maintenance_year_def insurance_year_def
  rental_income_year_def net_cash_flows_def cash_flow_year_def py_pow_def py_truediv_def
  upto.simps Let_def calculate_metrics_def calculate_npv_def calculate_irr_def
  calculate_payback_period_def mirr_try_def py_round2_def

lemma test_run_two_years:
  "snd (run_scenario Map.empty test_dealer (test_scenario1\<lparr>analysis_years := IntYears 2\<rparr>)) = Inr r \<Longrightarrow>
   r_years r = 2 \<and>
   y_total_revenue (r_yearly_data r) 1 = Some 7057640 \<and>
   y_operating_costs (r_yearly_data r) 1 = Some 600000 \<and>
   y_maintenance (r_yearly_data r) 1 = Some 0 \<and>
   y_insurance (r_yearly_data r) 1 = Some 50000 \<and>
   y_rental_income (r_yearly_data r) 1 = Some 0"
  by (auto simp: test_dealer_def test_scenario1_def run_scenario_eval)

theorem C1_witness_test_dealer:
  "\<exists>r. snd (run_scenario Map.empty test_dealer (test_scenario1\<lparr>analysis_years := IntYears 2\<rparr>)) = Inr r \<and>
       r_cash_flows r ! 0 = - 5000000 \<and> length (r_cash_flows r) = 3 \<and>
       r_cash_flows r ! 1 = 22747122 / 5"
proof -
  let ?s = "test_scenario1\<lparr>analysis_years := IntYears 2\<rparr>"
  have "\<exists>r. run_projection Map.empty test_dealer (normalize_scenario ?s) 2 = Inr r"
    by (rule run_projection_returns)
       (simp_all add: normalize_scenario_frame test_scenario1_def)
  then obtain r where r: "snd (run_scenario Map.empty test_dealer ?s) = Inr r"
    by (auto simp: run_scenario_snd test_scenario1_def)
  note data = test_run_two_years [OF r]
  have "r_cash_flows r ! 0 = - 5000000 \<and> length (r_cash_flows r) = 3 \<and>
        r_cash_flows r ! nat 1 = 22747122 / 5"
    using C1_cash_flow_vector_after_tax [OF r]
      C1_cash_flow_vector_after_tax [OF r, THEN conjunct2, THEN conjunct2, THEN conjunct2, rule_format, of 1]
      data
    by (simp add: Let_def dict_get_def test_dealer_def test_scenario1_def)
  then show ?thesis using r by auto
qed

lemma npv_loop_returns_pow:
  "(\<And>k. k < length xs \<Longrightarrow> (1 + dr) ^ (t + k) \<noteq> 0) \<Longrightarrow> \<exists>v. npv_loop dr t xs acc = Inr v"
proof (induction xs arbitrary: t acc)
  case Nil
  then show ?case by simp
next
  case (Cons x xs)
  have nz: "(1 + dr) ^ t \<noteq> 0" using Cons.prems [of 0] by simp
  have "\<And>k. k < length xs \<Longrightarrow> (1 + dr) ^ (Suc t + k) \<noteq> 0"
    using Cons.prems [of "Suc k" for k] by simp
  from Cons.IH [OF this] show ?case using nz by (simp add: py_truediv_def)
qed

lemma discount_flows_returns_pow:
  "(\<And>k. k < length xs \<Longrightarrow> (1 + dr) ^ (t + k) \<noteq> 0) \<Longrightarrow> \<exists>qs. discount_flows dr t xs = Inr qs"
proof (induction xs arbitrary: t)
  case Nil
  then show ?case by simp
next
  case (Cons x xs)
  have nz: "(1 + dr) ^ t \<noteq> 0" using Cons.prems [of 0] by simp
  have "\<And>k. k < length xs \<Longrightarrow> (1 + dr) ^ (Suc t + k) \<noteq> 0"
    using Cons.prems [of "Suc k" for k] by simp
  from Cons.IH [OF this] obtain qs where "discount_flows dr (Suc t) xs = Inr qs" by blast
  then show ?case using nz by (simp add: py_truediv_def)
qed

lemma calculate_metrics_returns_same_length:
  assumes "calculate_metrics np_irr xs dr rr_arg = Inr m" and "length ys = length xs"
  shows "\<exists>m'. calculate_metrics np_irr' ys dr rr_arg' = Inr m'"
proof -
  from assms(1) obtain v where v: "npv_loop dr 0 xs 0 = Inr v"
    by (auto simp: calculate_metrics_def calculate_npv_def split: sum.splits)
  have nz: "(1 + dr) ^ (0 + k) \<noteq> 0" if "k < length ys" for k
    using npv_loop_Inr_pow_nonzero [OF v, of k] that assms(2) by simp
  obtain w where "npv_loop dr 0 ys 0 = Inr w" using npv_loop_returns_pow [of ys dr 0 0] nz by blast
  moreover obtain qs where "discount_flows dr 0 ys = Inr qs"
    using discount_flows_returns_pow [of ys dr 0] nz by blast
  ultimately show ?thesis by (simp add: calculate_metrics_def calculate_npv_def Let_def)
qed

lemma run_projection_stages:
  assumes "run_projection np_irr d s years = Inr r"
  shows "(\<exists>mt. for_years (maintenance_year s years) [0..years] Map.empty = Inr mt) \<and>
         (\<exists>ri. for_years (rental_income_year s d years) [0..years] Map.empty = Inr ri) \<and>
         (\<exists>m. calculate_metrics np_irr (r_cash_flows r) (discount_rate s) None = Inr m)"
  using assms by (auto simp: run_projection_def Let_def split: sum.splits prod.splits)

lemma run_projection_returns_stages:
  assumes mt: "\<exists>mt. for_years (maintenance_year s years) [0..years] Map.empty = Inr mt"
    and ri: "\<exists>ri. for_years (rental_income_year s d years) [0..years] Map.empty = Inr ri"
    and cm: "\<And>cfs. length cfs = nat years + 1 \<Longrightarrow>
               \<exists>m. calculate_metrics np_irr cfs (discount_rate s) None = Inr m"
  shows "\<exists>r. run_projection np_irr d s years = Inr r"
proof -
  obtain pmg hsd hobc lube where ps: "product_sales d s years = Inr (pmg, hsd, hobc, lube)"
    using product_sales_returns [of d s years] by (metis prod_cases4)
  obtain pr hr br lr where rv: "product_revenues s years pmg hsd hobc lube = Inr (pr, hr, br, lr)"
    using product_revenues_returns [of s years pmg hsd hobc lube] by (metis prod_cases4)
  obtain tr where tr: "for_years (total_revenue_year pr hr br lr) [0..years] Map.empty = Inr tr"
    using for_years_returns [of "[0..years]" "total_revenue_year pr hr br lr"]
    by (auto simp: total_revenue_year_def)
  have "\<exists>v. operating_costs_year s (operating_costs d) y = Inr v" if "y \<in> set [0..years]" for y
    using that by (intro operating_costs_year_returns) simp
  then obtain oc
    where oc: "for_years (operating_costs_year s (operating_costs d)) [0..years] Map.empty = Inr oc"
    using for_years_returns by blast
  obtain mtv where mtv: "for_years (maintenance_year s years) [0..years] Map.empty = Inr mtv"
    using mt by blast
  have "\<exists>v. insurance_year s d (dict_get (insurance_rates s) ''property'' (1 / 100)) y = Inr v"
    if "y \<in> set [0..years]" for y
    using that by (intro insurance_year_returns) simp
  then obtain ins
    where ins: "for_years (insurance_year s d (dict_get (insurance_rates s) ''property'' (1 / 100)))
                  [0..years] Map.empty = Inr ins"
    using for_years_returns by blast
  obtain riv where riv: "for_years (rental_income_year s d years) [0..years] Map.empty = Inr riv"
    using ri by blast
  obtain m where m: "calculate_metrics np_irr
                       (net_cash_flows d tr oc mtv ins riv (tax_rate s) years)
                       (discount_rate s) None = Inr m"
    using cm [OF net_cash_flows_length] by blast
  show ?thesis using ps rv tr oc mtv ins riv m by (simp add: run_projection_def Let_def)
qed

lemma maintenance_year_zero:
  assumes "inflation_rate s1 = inflation_rate s2"
    and "other_maintenance s1 = other_maintenance s2"
    and "other_maintenance_year s1 = other_maintenance_year s2"
  shows "maintenance_year s1 y1 0 = maintenance_year s2 y2 0"
  using assms by (auto simp: maintenance_year_def split: sum.splits)

lemma rental_streams_loop_zero:
  assumes "inflation_rate s1 = inflation_rate s2" and "0 \<le> y1" and "0 \<le> y2"
  shows "rental_streams_loop s1 y1 0 streams income = rental_streams_loop s2 y2 0 streams income"
proof (induction streams arbitrary: income)
  case Nil
  then show ?case by simp
next
  case (Cons stream rest)
  have e: "(case end_year stream of None \<Rightarrow> y1 | Some y \<Rightarrow> y) \<ge> 0 \<longleftrightarrow>
           (case end_year stream of None \<Rightarrow> y2 | Some y \<Rightarrow> y) \<ge> 0"
    using assms(2,3) by (cases "end_year stream") simp_all
  show ?case using Cons.IH e assms(1) by (simp add: Let_def split: sum.splits)
qed

lemma run_scenario_snd_years:
  "snd (run_scenario np_irr d (s\<lparr>analysis_years := IntYears n\<rparr>)) =
   run_projection np_irr d (normalize_scenario (s\<lparr>analysis_years := IntYears n\<rparr>)) n"
  by (simp add: run_scenario_snd)

text \<open>
  C2 (as the code has it). \<^verbatim>\<open>run_scenario\<close> validates neither the horizon nor the signs of
  the volumes and of the investment: neither makes a run fail. When a run returns a
  result for a scenario with an integer horizon of 1 or more, the run with the horizon
  replaced by any integer below 1 returns a result too, whose cash-flow vector is the
  single entry \<open>- initial_investment\<close>; and the run for any dealer with the same rental
  streams, whatever its base volumes, initial investment and operating costs are
  (negative ones included), returns a result too, with \<open>- initial_investment\<close> as entry 0
  of a cash-flow vector of the same length.
\<close>

theorem C2_no_input_validation:
  "snd (run_scenario np_irr d s) = Inr r \<Longrightarrow>
   (\<forall>H n. analysis_years s = IntYears H \<and> 1 \<le> H \<and> n < 1 \<longrightarrow>
      (\<exists>r'. snd (run_scenario np_irr d (s\<lparr>analysis_years := IntYears n\<rparr>)) = Inr r' \<and>
            r_cash_flows r' = [- initial_investment d])) \<and>
   (\<forall>d'. rental_streams d' = rental_streams d \<longrightarrow>
      (\<exists>r'. snd (run_scenario np_irr d' s) = Inr r' \<and>
            r_cash_flows r' ! 0 = - initial_investment d' \<and>
            length (r_cash_flows r') = length (r_cash_flows r)))"
proof (intro conjI allI impI)
  assume a: "snd (run_scenario np_irr d s) = Inr r"
  fix H n :: int
  assume h: "analysis_years s = IntYears H \<and> 1 \<le> H \<and> n < 1"
  let ?s0 = "normalize_scenario s"
  let ?sn = "normalize_scenario (s\<lparr>analysis_years := IntYears n\<rparr>)"
  have rp: "run_projection np_irr d ?s0 H = Inr r" using a h by (simp add: run_scenario_snd)
  note st = run_projection_stages [OF rp]
  have zero: "0 \<in> set [0..H]" using h by simp
  have mt0: "\<exists>v. maintenance_year ?s0 H 0 = Inr v"
    using st for_years_Inr_body [OF _ zero] by blast
  have ri0: "\<exists>v. rental_income_year ?s0 d H 0 = Inr v"
    using st for_years_Inr_body [OF _ zero] by blast
  have mt: "\<exists>v. maintenance_year ?sn n y = Inr v" if "y \<in> set [0..n]" for y
  proof -
    have "y = 0" "n = 0" using that h by auto
    moreover have "maintenance_year ?sn 0 0 = maintenance_year ?s0 H 0"
      by (rule maintenance_year_zero) (simp_all add: normalize_scenario_frame)
    ultimately show ?thesis using mt0 by simp
  qed
  have ri: "\<exists>v. rental_income_year ?sn d n y = Inr v" if "y \<in> set [0..n]" for y
  proof -
    have "y = 0" "n = 0" using that h by auto
    moreover have "rental_income_year ?sn d 0 0 = rental_income_year ?s0 d H 0"
      unfolding rental_income_year_def using h
      by (intro rental_streams_loop_zero) (simp_all add: normalize_scenario_frame)
    ultimately show ?thesis using ri0 by simp
  qed
  have cm: "\<exists>m. calculate_metrics np_irr cfs (discount_rate ?sn) None = Inr m"
    if "length cfs = nat n + 1" for cfs
  proof -
    have "length cfs = 1" using that h by simp
    then obtain x where "cfs = [x]" by (cases cfs) auto
    then show ?thesis by (simp add: calculate_metrics_returns_single)
  qed
  have "\<exists>r'. run_projection np_irr d ?sn n = Inr r'"
    using mt ri cm by (intro run_projection_returns_stages for_years_returns) auto
  then obtain r' where r': "run_projection np_irr d ?sn n = Inr r'" by blast
  have "r_cash_flows r' = [- initial_investment d]"
    using run_projection_result [OF r'] h by (simp add: net_cash_flows_no_years)
  then show "\<exists>r'. snd (run_scenario np_irr d (s\<lparr>analysis_years := IntYears n\<rparr>)) = Inr r' \<and>
            r_cash_flows r' = [- initial_investment d]"
    using r' by (simp add: run_scenario_snd_years)
next
  assume a: "snd (run_scenario np_irr d s) = Inr r"
  fix d' :: dealer
  assume rs: "rental_streams d' = rental_streams d"
  define years where "years = (case analysis_years s of IntYears n \<Rightarrow> n | NotAnInt \<Rightarrow> 15)"
  let ?s0 = "normalize_scenario s"
  have rp: "run_projection np_irr d ?s0 years = Inr r"
    using a by (simp add: run_scenario_snd years_def)
  note st = run_projection_stages [OF rp]
  have len: "length (r_cash_flows r) = nat years + 1"
    using run_projection_result [OF rp] by (simp add: net_cash_flows_length)
  have ri: "\<exists>ri. for_years (rental_income_year ?s0 d' years) [0..years] Map.empty = Inr ri"
    using st rs by (simp add: rental_income_year_def [abs_def])
  have cm: "\<exists>m. calculate_metrics np_irr cfs (discount_rate ?s0) None = Inr m"
    if "length cfs = nat years + 1" for cfs
  proof -
    obtain m where "calculate_metrics np_irr (r_cash_flows r) (discount_rate ?s0) None = Inr m"
      using st by blast
    from calculate_metrics_returns_same_length [OF this, of cfs] that len show ?thesis by simp
  qed
  have "\<exists>r'. run_projection np_irr d' ?s0 years = Inr r'"
    using st ri cm by (intro run_projection_returns_stages) auto
  then obtain r' where r': "run_projection np_irr d' ?s0 years = Inr r'" by blast
  have "r_cash_flows r' ! 0 = - initial_investment d'"
    and "length (r_cash_flows r') = length (r_cash_flows r)"
    using run_projection_result [OF r'] len by (simp_all add: net_cash_flows_def)
  then show "\<exists>r'. snd (run_scenario np_irr d' s) = Inr r' \<and>
            r_cash_flows r' ! 0 = - initial_investment d' \<and>
            length (r_cash_flows r') = length (r_cash_flows r)"
    using r' by (simp add: run_scenario_snd years_def)
qed

text \<open>
  C2 as stated fails: with the test dealer and a horizon of 0 the run returns a result
  (cash flows \<open>[-5000000]\<close>), and with a negative base volume and a negative initial
  investment at horizon 1 it returns a result too (cash flows \<open>[5000000, 1899349.4]\<close>).
\<close>

theorem C2_counterexample_horizon_zero:
  "map_sum id r_cash_flows
     (snd (run_scenario Map.empty test_dealer (test_scenario1\<lparr>analysis_years := IntYears 0\<rparr>))) =
   Inr [- 5000000] \<and>
   map_sum id r_cash_flows
     (snd (run_scenario Map.empty
             (test_dealer\<lparr>pmg_sales := - 1000, initial_investment := - 5000000\<rparr>)
             (test_scenario1\<lparr>analysis_years := IntYears 1\<rparr>))) =
   Inr [5000000, 9496747 / 5]"
  by (simp add: test_dealer_def test_scenario1_def run_scenario_eval)

theorem C2_witness_negative_inputs:
  "(\<exists>r. snd (run_scenario Map.empty test_dealer test_scenario1) = Inr r) \<and>
   (\<exists>r. snd (run_scenario Map.empty test_dealer
                (test_scenario1\<lparr>analysis_years := IntYears 0\<rparr>)) = Inr r \<and>
        r_cash_flows r = [- 5000000]) \<and>
   (\<exists>r. snd (run_scenario Map.empty
                (test_dealer\<lparr>pmg_sales := - 1000, initial_investment := - 5000000\<rparr>)
                test_scenario1) = Inr r \<and>
        r_cash_flows r ! 0 = 5000000 \<and> length (r_cash_flows r) = 11)"
proof -
  have "\<exists>r. run_projection Map.empty test_dealer (normalize_scenario test_scenario1) 10 = Inr r"
    by (rule run_projection_returns)
       (simp_all add: normalize_scenario_frame test_scenario1_def)
  then obtain r where r: "snd (run_scenario Map.empty test_dealer test_scenario1) = Inr r"
    by (auto simp: run_scenario_snd test_scenario1_def)
  have len: "length (r_cash_flows r) = 11"
    using run_projection_result [of Map.empty test_dealer "normalize_scenario test_scenario1" 10 r] r
    by (simp add: run_scenario_snd test_scenario1_def net_cash_flows_length)
  note c2 = C2_no_input_validation [OF r]
  have h: "analysis_years test_scenario1 = IntYears 10 \<and> (1 :: int) \<le> 10 \<and> (0 :: int) < 1"
    by (simp add: test_scenario1_def)
  have a: "\<exists>r'. snd (run_scenario Map.empty test_dealer
                (test_scenario1\<lparr>analysis_years := IntYears 0\<rparr>)) = Inr r' \<and>
        r_cash_flows r' = [- 5000000]"
    using c2 [THEN conjunct1, rule_format, OF h] by (simp add: test_dealer_def)
  have b: "\<exists>r'. snd (run_scenario Map.empty
                (test_dealer\<lparr>pmg_sales := - 1000, initial_investment := - 5000000\<rparr>)
                test_scenario1) = Inr r' \<and>
        r_cash_flows r' ! 0 = 5000000 \<and> length (r_cash_flows r') = 11"
    using c2 [THEN conjunct2, rule_format,
        of "test_dealer\<lparr>pmg_sales := - 1000, initial_investment := - 5000000\<rparr>"] len
    by (simp add: test_dealer_def)
  show ?thesis using r a b by blast
qed

subsection \<open>The metrics of the result of run\_scenario\<close>

lemma run_scenario_metrics:
  "snd (run_scenario np_irr d s) = Inr r \<Longrightarrow>
   \<exists>m. calculate_metrics np_irr (r_cash_flows r) (discount_rate s) None = Inr m \<and>
       r_npv r = m_npv m \<and> r_irr r = m_irr m \<and> r_payback_period r = m_payback m \<and>
       r_mirr r = m_mirr m"
  by (auto simp: run_scenario_snd run_projection_def normalize_scenario_frame Let_def
      split: sum.splits prod.splits)

text \<open>
  C3 (as the code has it). For a cash-flow vector without a sign change (all entries
  non-negative, or all non-positive) \<^verbatim>\<open>calculate_irr\<close> returns \<^verbatim>\<open>None\<close> without calling the
  solver, and \<^verbatim>\<open>calculate_metrics\<close> (line 155) turns that \<^verbatim>\<open>None\<close> into the number 0: the
  IRR of the returned result is 0, whatever the solver, the discount rate and the
  reinvestment rate are, and so is the IRR of the result of \<^verbatim>\<open>run_scenario\<close> when its
  cash-flow vector has no sign change.
\<close>

theorem C3_irr_zero_without_sign_change:
  "(\<forall>cf \<in> set cash_flows. 0 \<le> cf) \<or> (\<forall>cf \<in> set cash_flows. cf \<le> 0) \<Longrightarrow>
   calculate_irr np_irr cash_flows = None \<and>
   (\<forall>m. calculate_metrics np_irr cash_flows dr rr = Inr m \<longrightarrow> m_irr m = 0) \<and>
   (\<forall>d s r. snd (run_scenario np_irr d s) = Inr r \<and> r_cash_flows r = cash_flows \<longrightarrow>
              r_irr r = 0)"
proof -
  assume a: "(\<forall>cf \<in> set cash_flows. 0 \<le> cf) \<or> (\<forall>cf \<in> set cash_flows. cf \<le> 0)"
  have none: "calculate_irr np_irr cash_flows = None"
    using a by (rule calculate_irr_no_sign_change)
  have metrics: "m_irr m = 0" if "calculate_metrics np_irr cash_flows dr' rr' = Inr m" for m dr' rr'
    using calculate_metrics_irr [OF that] none by simp
  have "r_irr r = 0" if "snd (run_scenario np_irr d s) = Inr r \<and> r_cash_flows r = cash_flows"
    for d s r
    using run_scenario_metrics [of np_irr d s r] that metrics by auto
  then show ?thesis using none metrics by blast
qed

text \<open>
  C3 as stated fails: for the all-positive vector \<open>[1, 2]\<close> the result of
  \<^verbatim>\<open>calculate_metrics\<close> carries the number 0 as its IRR, not a null value.
\<close>

theorem C3_counterexample_all_positive:
  "calculate_metrics Map.empty [1, 2] 0 None =
     Inr \<lparr> m_npv = 3, m_irr = 0, m_payback = 0, m_discounted_cash_flows = [1, 2],
           m_cumulative_cash_flows = [1, 3], m_mirr = 0 \<rparr>"
  by (simp add: calculate_metrics_def calculate_npv_def py_truediv_def calculate_irr_def
      calculate_payback_period_def mirr_try_def py_round2_def)

theorem C3_witness_all_negative:
  "(- 3 :: real) \<le> 0 \<and> (- 4 :: real) \<le> 0 \<and>
   calculate_irr Map.empty [- 3, - 4] = None \<and>
   map_sum id m_irr (calculate_metrics Map.empty [- 3, - 4] 0 None) = Inr 0"
proof -
  have h: "(\<forall>cf \<in> set [- 3, - 4 :: real]. 0 \<le> cf) \<or> (\<forall>cf \<in> set [- 3, - 4 :: real]. cf \<le> 0)"
    by simp
  have r: "calculate_metrics Map.empty [- 3, - 4] 0 None =
     Inr \<lparr> m_npv = - 7, m_irr = 0, m_payback = 2, m_discounted_cash_flows = [- 3, - 4],
           m_cumulative_cash_flows = [- 3, - 7], m_mirr = 0 \<rparr>"
    by (simp add: calculate_metrics_def calculate_npv_def py_truediv_def calculate_irr_def
        calculate_payback_period_def mirr_try_def py_round2_def)
  show ?thesis
    using C3_irr_zero_without_sign_change [OF h, of Map.empty 0 None] r by simp
qed

text \<open>
  C4 (as the code has it). When the running undiscounted cumulative sum is negative at
  every index of the vector, \<^verbatim>\<open>calculate_payback_period\<close> returns \<^verbatim>\<open>None\<close>, and
  \<^verbatim>\<open>calculate_metrics\<close> (lines 159-160) replaces that \<^verbatim>\<open>None\<close> by
  \<^verbatim>\<open>len(cash_flows)\<close>: the payback period of the returned result is the number of
  entries of the vector, and so is the payback period of the result of \<^verbatim>\<open>run_scenario\<close>
  when its cash-flow vector never recovers.
\<close>

theorem C4_payback_len_when_never_recovered:
  "(\<forall>k < length cash_flows. cumulative_loop 0 cash_flows ! k < 0) \<Longrightarrow>
   calculate_payback_period cash_flows = None \<and>
   (\<forall>m. calculate_metrics np_irr cash_flows dr rr = Inr m \<longrightarrow>
        m_payback m = real (length cash_flows)) \<and>
   (\<forall>d s r. snd (run_scenario np_irr d s) = Inr r \<and> r_cash_flows r = cash_flows \<longrightarrow>
              r_payback_period r = real (length cash_flows))"
proof -
  assume a: "\<forall>k < length cash_flows. cumulative_loop 0 cash_flows ! k < 0"
  have none: "calculate_payback_period cash_flows = None"
    unfolding calculate_payback_period_def payback_loop_None
    using a by (simp add: cumulative_loop_nth)
  have metrics: "m_payback m = real (length cash_flows)"
    if "calculate_metrics np_irr cash_flows dr' rr' = Inr m" for m dr' rr'
    using calculate_metrics_payback [OF that] none by simp
  have "r_payback_period r = real (length cash_flows)"
    if "snd (run_scenario np_irr d s) = Inr r \<and> r_cash_flows r = cash_flows" for d s r
    using run_scenario_metrics [of np_irr d s r] that metrics by auto
  then show ?thesis using none metrics by blast
qed

text \<open>
  C4 as stated fails: the vector \<open>[-5, 1]\<close> never recovers, and the result of
  \<^verbatim>\<open>calculate_metrics\<close> carries the number 2 as its payback period.
\<close>

theorem C4_counterexample_never_recovers:
  "calculate_payback_period [- 5, 1] = None \<and>
   calculate_metrics Map.empty [- 5, 1] 0 None =
     Inr \<lparr> m_npv = - 4, m_irr = 0, m_payback = 2, m_discounted_cash_flows = [- 5, 1],
           m_cumulative_cash_flows = [- 5, - 4], m_mirr = - 4 / 5 \<rparr>"
  by (simp add: calculate_metrics_def calculate_npv_def py_truediv_def calculate_irr_def
      calculate_payback_period_def mirr_try_def py_round2_def)

theorem C4_witness_never_recovers:
  "cumulative_loop 0 [- 9, 2, 3] = [- 9, - 7, - 4] \<and>
   calculate_payback_period [- 9, 2, 3] = None \<and>
   map_sum id m_payback (calculate_metrics Map.empty [- 9, 2, 3] 0 None) = Inr 3"
proof -
  have h: "\<forall>k < length [- 9, 2, 3 :: real]. cumulative_loop 0 [- 9, 2, 3] ! k < 0"
    by (simp add: nth_Cons' less_Suc_eq)
  have r: "\<exists>m. calculate_metrics Map.empty [- 9, 2, 3] 0 None = Inr m"
    by (simp add: calculate_metrics_def calculate_npv_def py_truediv_def Let_def
        split: sum.splits)
  show ?thesis
    using C4_payback_len_when_never_recovered [OF h, of Map.empty 0 None] r by auto
qed

end
